theory Spec2Isabelle
  imports Complex_Main
begin

section \<open>Python values and errors\<close>

text \<open>
  The tick module \<^verbatim>\<open>ticker.py\<close> is Python 2 code (the repository's scripts run under
  \<^verbatim>\<open>python2\<close>; \<^verbatim>\<open>map\<close> returns a list). Its setters test the dynamic type of
  their argument with \<^verbatim>\<open>isinstance\<close>, so arguments of setters are values of the
  datatype below. A Python \<^verbatim>\<open>float\<close> is kept by the real number it stands for; the
  rounding of its arithmetic is the subject of the next section. \<^verbatim>\<open>PInt\<close> is a plain
  \<^verbatim>\<open>int\<close>, \<^verbatim>\<open>PLong\<close> a Python 2 \<^verbatim>\<open>long\<close> (not an instance of \<^verbatim>\<open>int\<close>),
  \<^verbatim>\<open>PStr\<close> a byte string.
\<close>

datatype pyval =
    PNone
  | PBool bool
  | PInt int
  | PLong int
  | PFloat real
  | PStr string
  | PList "pyval list"
  | PTuple "pyval list"

datatype pyerr =
  ZeroDivisionError | TypeError | ValueError | IndexError | AttributeError | OverflowError

text \<open>\<^verbatim>\<open>isinstance(v, int)\<close>: \<^verbatim>\<open>bool\<close> is a subclass of \<^verbatim>\<open>int\<close>, \<^verbatim>\<open>long\<close> is not.\<close>

fun isinstance_int :: "pyval \<Rightarrow> bool" where
  "isinstance_int (PInt n) = True"
| "isinstance_int (PBool b) = True"
| "isinstance_int v = False"

fun isinstance_float :: "pyval \<Rightarrow> bool" where
  "isinstance_float (PFloat r) = True"
| "isinstance_float v = False"

fun isinstance_str :: "pyval \<Rightarrow> bool" where
  "isinstance_str (PStr s) = True"
| "isinstance_str v = False"

fun isinstance_list :: "pyval \<Rightarrow> bool" where
  "isinstance_list (PList xs) = True"
| "isinstance_list v = False"

fun isinstance_tuple :: "pyval \<Rightarrow> bool" where
  "isinstance_tuple (PTuple xs) = True"
| "isinstance_tuple v = False"

text \<open>The integer an \<^verbatim>\<open>int\<close> instance stands for (\<^verbatim>\<open>True\<close> is 1, \<^verbatim>\<open>False\<close> is 0).\<close>

fun int_value :: "pyval \<Rightarrow> int" where
  "int_value (PInt n) = n"
| "int_value (PBool b) = (if b then 1 else 0)"
| "int_value (PLong n) = n"
| "int_value v = 0"

text \<open>The number an \<^verbatim>\<open>int\<close> or \<^verbatim>\<open>float\<close> instance stands for.\<close>

fun num_value :: "pyval \<Rightarrow> real" where
  "num_value (PFloat r) = r"
| "num_value v = real_of_int (int_value v)"

text \<open>The items of a list or a tuple.\<close>

fun items :: "pyval \<Rightarrow> pyval list" where
  "items (PList xs) = xs"
| "items (PTuple xs) = xs"
| "items v = []"

text \<open>\<^verbatim>\<open>kwargs.pop(key, default)\<close> on the keyword dictionary of a call.\<close>

definition kwargs_pop :: "(string \<rightharpoonup> pyval) \<Rightarrow> string \<Rightarrow> pyval \<Rightarrow> pyval" where
  "kwargs_pop kwargs key dflt = (case kwargs key of None \<Rightarrow> dflt | Some v \<Rightarrow> v)"

section \<open>Floating-point arithmetic\<close>

text \<open>
  A Python \<^verbatim>\<open>float\<close> is an IEEE 754 double, and an operation on floats returns the
  double next to the exact result. Every function below that computes with floats takes
  the rounding as its argument \<open>rnd\<close> and applies it to the exact result of each
  operation of the source, one operation at a time. Nothing is assumed about \<open>rnd\<close>:
  what is proved for every \<open>rnd\<close> holds for the rounding of the machine. One fact about
  doubles is built in: an integer of magnitude at most \<open>2^53\<close> is a double, so an
  operation whose exact result is such an integer returns it (as Python's arithmetic on
  \<^verbatim>\<open>int\<close> does). The arguments \<open>start\<close> and \<open>end\<close> of \<^verbatim>\<open>locations\<close>, the base and
  the anchor are numbers given by value: Python's arithmetic on \<^verbatim>\<open>int\<close> is exact at
  every magnitude, and the model agrees with it up to \<open>2^53\<close>. The infinities and
  \<^verbatim>\<open>nan\<close>, which an overflow produces, are not values of the model.
\<close>

definition fround :: "(real \<Rightarrow> real) \<Rightarrow> real \<Rightarrow> real" where
  "fround rnd x = (if x \<in> \<int> \<and> \<bar>x\<bar> \<le> 2 ^ 53 then x else rnd x)"

definition float_add :: "(real \<Rightarrow> real) \<Rightarrow> real \<Rightarrow> real \<Rightarrow> real" where
  "float_add rnd x y = fround rnd (x + y)"

definition float_sub :: "(real \<Rightarrow> real) \<Rightarrow> real \<Rightarrow> real \<Rightarrow> real" where
  "float_sub rnd x y = fround rnd (x - y)"

definition float_mul :: "(real \<Rightarrow> real) \<Rightarrow> real \<Rightarrow> real \<Rightarrow> real" where
  "float_mul rnd x y = fround rnd (x * y)"

text \<open>Float division raises \<^verbatim>\<open>ZeroDivisionError\<close> on a zero divisor.\<close>

definition float_div :: "(real \<Rightarrow> real) \<Rightarrow> real \<Rightarrow> real \<Rightarrow> pyerr + real" where
  "float_div rnd x y = (if y = 0 then Inl ZeroDivisionError else Inr (fround rnd (x / y)))"

text \<open>
  The rounding of IEEE 754 doubles themselves: to the nearest number with 53 significant
  bits, a tie to the one whose last bit is 0. \<open>double_round\<close> scales \<open>x\<close> by the power
  of two that brings it between \<open>2^52\<close> and \<open>2^53\<close>, rounds to an integer there, and
  scales back. (The exponent is not bounded: no overflow, no subnormal numbers.)
\<close>

definition round_half_even :: "real \<Rightarrow> int" where
  "round_half_even y =
     (let f = \<lfloor>y\<rfloor> in
      if y - real_of_int f < 1 / 2 then f
      else if 1 / 2 < y - real_of_int f then f + 1
      else if even f then f else f + 1)"

definition double_round :: "real \<Rightarrow> real" where
  "double_round x =
     (if x = 0 then 0
      else let e = \<lfloor>log 2 \<bar>x\<bar>\<rfloor> - 52
           in real_of_int (round_half_even (x / 2 powi e)) * 2 powi e)"

section \<open>NullLocator\<close>

definition NullLocator_locations :: "real \<Rightarrow> real \<Rightarrow> string \<Rightarrow> real list" where
  "NullLocator_locations start end axisType = []"

section \<open>LinearLocator\<close>

text \<open>
  The field \<^verbatim>\<open>_num\<close> only ever holds an \<^verbatim>\<open>int\<close> instance (the default 5, or what
  \<^verbatim>\<open>setNum\<close> let through); the record keeps its integer value.
\<close>

record LinearLocator =
  lin_num :: int

definition LinearLocator_setNum :: "pyval \<Rightarrow> LinearLocator \<Rightarrow> LinearLocator" where
  "LinearLocator_setNum num self =
     (if isinstance_int num then self\<lparr>lin_num := int_value num\<rparr> else self)"

definition LinearLocator_init :: "pyval \<Rightarrow> LinearLocator" where
  "LinearLocator_init num = LinearLocator_setNum num \<lparr>lin_num = 5\<rparr>"

definition LinearLocator_setValues :: "(string \<rightharpoonup> pyval) \<Rightarrow> LinearLocator \<Rightarrow> LinearLocator" where
  "LinearLocator_setValues kwargs self =
     (let num = kwargs_pop kwargs ''num'' PNone in LinearLocator_setNum num self)"

text \<open>
  The loop \<^verbatim>\<open>for i in range(num - 1): locs.append(start); start += delta\<close>, by
  the number of iterations left.
\<close>

fun linear_loop ::
  "(real \<Rightarrow> real) \<Rightarrow> nat \<Rightarrow> real \<Rightarrow> real \<Rightarrow> real list \<Rightarrow> real list" where
  "linear_loop rnd 0 start delta locs = locs"
| "linear_loop rnd (Suc k) start delta locs =
     linear_loop rnd k (float_add rnd start delta) delta (locs @ [start])"

text \<open>
  \<^verbatim>\<open>locations\<close>: the difference and the quotient of
  \<^verbatim>\<open>(float(end) - float(start)) / float(num - 1)\<close> are each rounded;
  \<^verbatim>\<open>range(k)\<close> is empty for \<open>k \<le> 0\<close>; the last element appended is the argument
  \<open>end\<close>.
\<close>

definition LinearLocator_locations ::
  "(real \<Rightarrow> real) \<Rightarrow> LinearLocator \<Rightarrow> real \<Rightarrow> real \<Rightarrow> string \<Rightarrow> pyerr + real list" where
  "LinearLocator_locations rnd self start end axisType =
     (let num = lin_num self;
          num = (if axisType = ''minor'' then num + 2 else num)
      in case float_div rnd (float_sub rnd end start) (real_of_int (num - 1)) of
           Inl e \<Rightarrow> Inl e
         | Inr delta \<Rightarrow>
             (let locs = linear_loop rnd (nat (num - 1)) start delta []
              in Inr (locs @ [end])))"

section \<open>FixedLocator\<close>

text \<open>
  \<^verbatim>\<open>_locations\<close> holds the very list or tuple that \<^verbatim>\<open>setLocations\<close> was given
  (initially the empty list).
\<close>

datatype pyseq = SeqList "pyval list" | SeqTuple "pyval list"

fun seq_items :: "pyseq \<Rightarrow> pyval list" where
  "seq_items (SeqList xs) = xs"
| "seq_items (SeqTuple xs) = xs"

text \<open>
  \<^verbatim>\<open>_nTicks\<close>: \<open>None\<close> when the attribute does not exist (the constructor
  assigns no default before it calls \<^verbatim>\<open>setNTicks\<close>), \<open>Some None\<close> for Python's
  \<^verbatim>\<open>None\<close>, \<open>Some (Some n)\<close> for an integer.
\<close>

record FixedLocator =
  fix_locations :: pyseq
  fix_nTicks :: "int option option"

definition FixedLocator_setLocations :: "pyval \<Rightarrow> FixedLocator \<Rightarrow> FixedLocator" where
  "FixedLocator_setLocations locations self =
     (case locations of
        PList xs \<Rightarrow> self\<lparr>fix_locations := SeqList xs\<rparr>
      | PTuple xs \<Rightarrow> self\<lparr>fix_locations := SeqTuple xs\<rparr>
      | _ \<Rightarrow> self)"

definition FixedLocator_setNTicks :: "pyval \<Rightarrow> FixedLocator \<Rightarrow> FixedLocator" where
  "FixedLocator_setNTicks nTicks self =
     (if nTicks = PNone then self\<lparr>fix_nTicks := Some None\<rparr>
      else if isinstance_int nTicks then
        (if int_value nTicks < 2 then self\<lparr>fix_nTicks := Some (Some 2)\<rparr>
         else self\<lparr>fix_nTicks := Some (Some (int_value nTicks))\<rparr>)
      else self)"

definition FixedLocator_init :: "pyval \<Rightarrow> pyval \<Rightarrow> FixedLocator" where
  "FixedLocator_init locations nTicks =
     FixedLocator_setNTicks nTicks
       (FixedLocator_setLocations locations \<lparr>fix_locations = SeqList [], fix_nTicks = None\<rparr>)"

definition FixedLocator_setValues :: "(string \<rightharpoonup> pyval) \<Rightarrow> FixedLocator \<Rightarrow> FixedLocator" where
  "FixedLocator_setValues kwargs self =
     (let self = (case kwargs ''locations'' of
                    Some v \<Rightarrow> FixedLocator_setLocations v self | None \<Rightarrow> self)
      in case kwargs ''nTicks'' of
           Some v \<Rightarrow> FixedLocator_setNTicks v self | None \<Rightarrow> self)"

text \<open>Python 2's \<^verbatim>\<open>round\<close> rounds a half away from zero; \<^verbatim>\<open>int\<close> then drops \<open>.0\<close>.\<close>

definition py_round :: "real \<Rightarrow> int" where
  "py_round x = (if 0 \<le> x then \<lfloor>x + 1 / 2\<rfloor> else - \<lfloor>- x + 1 / 2\<rfloor>)"

text \<open>Indexing a sequence: a negative index counts from the end, a miss raises.\<close>

definition py_index :: "'a list \<Rightarrow> int \<Rightarrow> pyerr + 'a" where
  "py_index xs i =
     (if 0 \<le> i \<and> i < int (length xs) then Inr (xs ! nat i)
      else if i < 0 \<and> 0 \<le> int (length xs) + i then Inr (xs ! nat (int (length xs) + i))
      else Inl IndexError)"

text \<open>
  The loop \<^verbatim>\<open>for i in range(n): locs.append(self._locations[int(round(i * subsamplingDistance))])\<close>,
  over the values of \<open>i\<close> still to come. The product is a float product: it is rounded
  to a double before \<^verbatim>\<open>round\<close> sees it.
\<close>

fun subsample_loop ::
  "(real \<Rightarrow> real) \<Rightarrow> pyval list \<Rightarrow> real \<Rightarrow> nat list \<Rightarrow> pyval list \<Rightarrow> pyerr + pyval list" where
  "subsample_loop rnd locations subsamplingDistance [] locs = Inr locs"
| "subsample_loop rnd locations subsamplingDistance (i # rest) locs =
     (case py_index locations (py_round (float_mul rnd (real i) subsamplingDistance)) of
        Inl e \<Rightarrow> Inl e
      | Inr v \<Rightarrow> subsample_loop rnd locations subsamplingDistance rest (locs @ [v]))"

text \<open>
  \<^verbatim>\<open>locations\<close> may assign \<^verbatim>\<open>self._nTicks\<close>, so it returns the locator with its
  result. \<open>start\<close>, \<open>end\<close> and \<open>axisType\<close> are not read. Reading \<^verbatim>\<open>_nTicks\<close>
  raises \<^verbatim>\<open>AttributeError\<close> when the attribute does not exist.
\<close>

definition FixedLocator_locations ::
  "(real \<Rightarrow> real) \<Rightarrow> FixedLocator \<Rightarrow> real \<Rightarrow> real \<Rightarrow> string \<Rightarrow>
     (pyerr + pyseq) \<times> FixedLocator" where
  "FixedLocator_locations rnd self start end axisType =
     (case fix_nTicks self of
        None \<Rightarrow> (Inl AttributeError, self)
      | Some None \<Rightarrow> (Inr (fix_locations self), self)
      | Some (Some nTicks) \<Rightarrow>
          (let locations = seq_items (fix_locations self) in
           if nTicks \<ge> int (length locations) then (Inr (fix_locations self), self)
           else
             (let self' = (if nTicks < 2 then self\<lparr>fix_nTicks := Some (Some 2)\<rparr> else self);
                  nTicks' = (if nTicks < 2 then 2 else nTicks);
                  n = nTicks' - 1
              in case float_div rnd (real_of_int (int (length locations) - 1)) (real_of_int n) of
                   Inl e \<Rightarrow> (Inl e, self')
                 | Inr subsamplingDistance \<Rightarrow>
                     (case subsample_loop rnd locations subsamplingDistance [0..<nat n] [] of
                        Inl e \<Rightarrow> (Inl e, self')
                      | Inr locs \<Rightarrow>
                          (case py_index locations (- 1) of
                             Inl e \<Rightarrow> (Inl e, self')
                           | Inr l \<Rightarrow> (Inr (SeqList (locs @ [l])), self'))))))"

section \<open>SpacedLocator\<close>

text \<open>
  \<^verbatim>\<open>_base\<close> holds a number, \<^verbatim>\<open>_anchor\<close> a number or \<^verbatim>\<open>None\<close>; the record keeps
  the numbers by value.
\<close>

record SpacedLocator =
  sp_base :: real
  sp_anchor :: "real option"

definition SpacedLocator_setBase :: "pyval \<Rightarrow> SpacedLocator \<Rightarrow> SpacedLocator" where
  "SpacedLocator_setBase base self =
     (if isinstance_int base \<or> isinstance_float base then
        (if num_value base > 0 then self\<lparr>sp_base := num_value base\<rparr> else self)
      else self)"

definition SpacedLocator_setAnchor :: "pyval \<Rightarrow> SpacedLocator \<Rightarrow> SpacedLocator" where
  "SpacedLocator_setAnchor anchor self =
     (if isinstance_int anchor \<or> isinstance_float anchor \<or> anchor = PNone then
        self\<lparr>sp_anchor := (if anchor = PNone then None else Some (num_value anchor))\<rparr>
      else self)"

definition SpacedLocator_init :: "pyval \<Rightarrow> pyval \<Rightarrow> SpacedLocator" where
  "SpacedLocator_init base anchor =
     SpacedLocator_setAnchor anchor
       (SpacedLocator_setBase base \<lparr>sp_base = 1, sp_anchor = None\<rparr>)"

definition SpacedLocator_setValues :: "(string \<rightharpoonup> pyval) \<Rightarrow> SpacedLocator \<Rightarrow> SpacedLocator" where
  "SpacedLocator_setValues kwargs self =
     (let base = kwargs_pop kwargs ''base'' PNone;
          anchor = kwargs_pop kwargs ''anchor'' (PStr [])
      in SpacedLocator_setAnchor anchor (SpacedLocator_setBase base self))"

text \<open>
  The two \<^verbatim>\<open>while\<close> loops. Nothing in the code bounds their number of iterations, so
  they are partial functions: \<open>None\<close> means that the loop does not end. Each returns
  the variables \<open>loc\<close> and \<open>locs\<close> at the exit. \<^verbatim>\<open>loc += base\<close> and
  \<^verbatim>\<open>loc -= base\<close> are rounded at every iteration.
\<close>

partial_function (option) spaced_forward ::
  "(real \<Rightarrow> real) \<Rightarrow> real \<Rightarrow> real \<Rightarrow> real \<Rightarrow> real list \<Rightarrow> (real \<times> real list) option" where
  "spaced_forward rnd base end loc locs =
     (if loc < end then spaced_forward rnd base end (float_add rnd loc base) (locs @ [loc])
      else Some (loc, locs))"

partial_function (option) spaced_backward ::
  "(real \<Rightarrow> real) \<Rightarrow> real \<Rightarrow> real \<Rightarrow> real \<Rightarrow> real list \<Rightarrow> (real \<times> real list) option" where
  "spaced_backward rnd base start loc locs =
     (if loc > start then spaced_backward rnd base start (float_sub rnd loc base) (loc # locs)
      else Some (loc, locs))"

definition SpacedLocator_locations ::
  "(real \<Rightarrow> real) \<Rightarrow> SpacedLocator \<Rightarrow> real \<Rightarrow> real \<Rightarrow> string \<Rightarrow> real list option" where
  "SpacedLocator_locations rnd self start end axisType =
     (let base = sp_base self in
      case sp_anchor self of
        None \<Rightarrow>
          (case spaced_forward rnd base end start [] of
             None \<Rightarrow> None
           | Some (loc, locs) \<Rightarrow> Some (locs @ [loc]))
      | Some anchor \<Rightarrow>
          (case spaced_backward rnd base start anchor [] of
             None \<Rightarrow> None
           | Some (loc, locs) \<Rightarrow>
               (case spaced_forward rnd base end (float_add rnd anchor base) (loc # locs) of
                  None \<Rightarrow> None
                | Some (loc, locs) \<Rightarrow> Some (locs @ [loc]))))"

section \<open>LogLocator\<close>

text \<open>
  \<^verbatim>\<open>_base\<close> holds the \<^verbatim>\<open>int\<close> or \<^verbatim>\<open>float\<close> instance it was given (whether a
  power of it is an \<^verbatim>\<open>int\<close> depends on which), \<^verbatim>\<open>_subdivisions\<close> a list.
\<close>

record LogLocator =
  log_base :: pyval
  log_subdivisions :: "pyval list"

definition LogLocator_setBase :: "pyval \<Rightarrow> LogLocator \<Rightarrow> LogLocator" where
  "LogLocator_setBase base self =
     (if isinstance_int base \<or> isinstance_float base then self\<lparr>log_base := base\<rparr> else self)"

definition LogLocator_setSubdivisions :: "pyval \<Rightarrow> LogLocator \<Rightarrow> LogLocator" where
  "LogLocator_setSubdivisions subdivisions self =
     (if isinstance_list subdivisions \<or> isinstance_tuple subdivisions
      then self\<lparr>log_subdivisions := items subdivisions\<rparr> else self)"

definition LogLocator_init :: "pyval \<Rightarrow> pyval \<Rightarrow> LogLocator" where
  "LogLocator_init base subdivisions =
     LogLocator_setSubdivisions subdivisions
       (LogLocator_setBase base \<lparr>log_base = PInt 10, log_subdivisions = [PInt 1]\<rparr>)"

definition LogLocator_setValues :: "(string \<rightharpoonup> pyval) \<Rightarrow> LogLocator \<Rightarrow> LogLocator" where
  "LogLocator_setValues kwargs self =
     (let base = kwargs_pop kwargs ''base'' PNone;
          subdivisions = kwargs_pop kwargs ''subdivisions'' PNone
      in LogLocator_setSubdivisions subdivisions (LogLocator_setBase base self))"

text \<open>
  \<^verbatim>\<open>math.log(x, base)\<close> takes the logarithm of \<open>x\<close>, then of \<open>base\<close> (each raises
  \<^verbatim>\<open>ValueError\<close> on a non-positive argument), and divides the two floats
  (\<^verbatim>\<open>ZeroDivisionError\<close> when the logarithm of the base is zero, as for base 1). A base
  that is not a number raises \<^verbatim>\<open>TypeError\<close>. The logarithm of a positive double is
  the one of the C library: it is the argument \<open>flog\<close>, about which nothing is assumed.
  (\<^verbatim>\<open>_base\<close> holds an \<^verbatim>\<open>int\<close> or a \<^verbatim>\<open>float\<close>; the separate route that
  \<^verbatim>\<open>math.log\<close> takes for a \<^verbatim>\<open>long\<close> beyond the range of doubles is not
  modelled.)
\<close>

fun is_number :: "pyval \<Rightarrow> bool" where
  "is_number (PBool b) = True"
| "is_number (PInt n) = True"
| "is_number (PLong n) = True"
| "is_number (PFloat r) = True"
| "is_number v = False"

fun is_integral :: "pyval \<Rightarrow> bool" where
  "is_integral (PBool b) = True"
| "is_integral (PInt n) = True"
| "is_integral (PLong n) = True"
| "is_integral v = False"

text \<open>The float a number is converted to when it meets a float in an operation.\<close>

definition py_float :: "(real \<Rightarrow> real) \<Rightarrow> pyval \<Rightarrow> real" where
  "py_float rnd v = (if isinstance_float v then num_value v else fround rnd (num_value v))"

definition math_log ::
  "(real \<Rightarrow> real) \<Rightarrow> (real \<Rightarrow> real) \<Rightarrow> real \<Rightarrow> pyval \<Rightarrow> pyerr + real" where
  "math_log flog rnd x base =
     (if x \<le> 0 then Inl ValueError
      else if \<not> is_number base then Inl TypeError
      else if py_float rnd base \<le> 0 then Inl ValueError
      else float_div rnd (flog x) (flog (py_float rnd base)))"

text \<open>
  The power of a float to an integer exponent: 1 for the exponent 0, zero to a negative
  power raises \<^verbatim>\<open>ZeroDivisionError\<close>; otherwise the result is the one of the C
  library's \<^verbatim>\<open>pow\<close>, a double or, when that is out of range, \<^verbatim>\<open>OverflowError\<close>:
  the argument \<open>fpow\<close>, about which nothing is assumed.
\<close>

definition float_pow ::
  "(real \<Rightarrow> int \<Rightarrow> pyerr + real) \<Rightarrow> real \<Rightarrow> int \<Rightarrow> pyerr + real" where
  "float_pow fpow x n =
     (if n = 0 then Inr 1
      else if x = 0 then (if n < 0 then Inl ZeroDivisionError else Inr 0)
      else fpow x n)"

text \<open>
  \<^verbatim>\<open>pow(base, exponent)\<close> for an integer exponent: the exact integer for an integral
  base and a non-negative exponent, the power of floats otherwise.
\<close>

definition py_pow ::
  "(real \<Rightarrow> int \<Rightarrow> pyerr + real) \<Rightarrow> (real \<Rightarrow> real) \<Rightarrow> pyval \<Rightarrow> int \<Rightarrow> pyerr + pyval" where
  "py_pow fpow rnd base exponent =
     (if is_integral base \<and> 0 \<le> exponent then Inr (PInt (int_value base ^ nat exponent))
      else if is_number base then
        map_sum id PFloat (float_pow fpow (py_float rnd base) exponent)
      else Inl TypeError)"

text \<open>
  \<^verbatim>\<open>x * p\<close> for \<open>p\<close> a result of \<open>py_pow\<close>: the exact product of two integers, the
  rounded product of two numbers one of which is a float, a sequence repeated an integral
  number of times, \<^verbatim>\<open>TypeError\<close> otherwise.
\<close>

definition py_times :: "(real \<Rightarrow> real) \<Rightarrow> pyval \<Rightarrow> pyval \<Rightarrow> pyerr + pyval" where
  "py_times rnd x p =
     (if is_number x then
        (if is_integral x \<and> is_integral p then Inr (PInt (int_value x * int_value p))
         else Inr (PFloat (float_mul rnd (py_float rnd x) (py_float rnd p))))
      else if is_integral p then
        (case x of
           PStr s \<Rightarrow> Inr (PStr (concat (replicate (nat (int_value p)) s)))
         | PList xs \<Rightarrow> Inr (PList (concat (replicate (nat (int_value p)) xs)))
         | PTuple xs \<Rightarrow> Inr (PTuple (concat (replicate (nat (int_value p)) xs)))
         | _ \<Rightarrow> Inl TypeError)
      else Inl TypeError)"

text \<open>A list comprehension whose element expression may raise.\<close>

fun map_raise :: "('a \<Rightarrow> pyerr + 'b) \<Rightarrow> 'a list \<Rightarrow> pyerr + 'b list" where
  "map_raise f [] = Inr []"
| "map_raise f (x # xs) =
     (case f x of
        Inl e \<Rightarrow> Inl e
      | Inr y \<Rightarrow> (case map_raise f xs of Inl e \<Rightarrow> Inl e | Inr ys \<Rightarrow> Inr (y # ys)))"

text \<open>The list \<^verbatim>\<open>[x * pow(self._base, exponent) for x in self._subdivisions]\<close>.\<close>

definition log_decade ::
  "(real \<Rightarrow> int \<Rightarrow> pyerr + real) \<Rightarrow> (real \<Rightarrow> real) \<Rightarrow> pyval \<Rightarrow> pyval list \<Rightarrow> int \<Rightarrow>
     pyerr + pyval list" where
  "log_decade fpow rnd base subdivisions exponent =
     map_raise (\<lambda>x. case py_pow fpow rnd base exponent of
                       Inl e \<Rightarrow> Inl e
                     | Inr p \<Rightarrow> py_times rnd x p)
       subdivisions"

function log_loop ::
  "(real \<Rightarrow> int \<Rightarrow> pyerr + real) \<Rightarrow> (real \<Rightarrow> real) \<Rightarrow> pyval \<Rightarrow> pyval list \<Rightarrow> int \<Rightarrow> int \<Rightarrow>
     pyval list \<Rightarrow> pyerr + pyval list" where
  "log_loop fpow rnd base subdivisions exponent lastExponent locs =
     (if exponent \<le> lastExponent then
        (case log_decade fpow rnd base subdivisions exponent of
           Inl e \<Rightarrow> Inl e
         | Inr ys \<Rightarrow> log_loop fpow rnd base subdivisions (exponent + 1) lastExponent (locs @ ys))
      else Inr locs)"
  by pat_completeness auto
termination
  by (relation "measure (\<lambda>(fpow, rnd, base, subdivisions, exponent, lastExponent, locs).
        nat (lastExponent - exponent + 1))") auto

text \<open>
  \<^verbatim>\<open>try: exponent = int(math.floor(math.log(...))) except ValueError: exponent = 0\<close>:
  only \<^verbatim>\<open>ValueError\<close> is caught.
\<close>

definition log_exponent ::
  "(real \<Rightarrow> real) \<Rightarrow> (real \<Rightarrow> real) \<Rightarrow> (real \<Rightarrow> int) \<Rightarrow> real \<Rightarrow> pyval \<Rightarrow> pyerr + int" where
  "log_exponent flog rnd rounding x base =
     (case math_log flog rnd x base of
        Inr v \<Rightarrow> Inr (rounding v)
      | Inl ValueError \<Rightarrow> Inr 0
      | Inl e \<Rightarrow> Inl e)"

definition LogLocator_locations ::
  "(real \<Rightarrow> real) \<Rightarrow> (real \<Rightarrow> int \<Rightarrow> pyerr + real) \<Rightarrow> (real \<Rightarrow> real) \<Rightarrow>
     LogLocator \<Rightarrow> real \<Rightarrow> real \<Rightarrow> string \<Rightarrow> pyerr + pyval list" where
  "LogLocator_locations flog fpow rnd self start end axisType =
     (case log_exponent flog rnd floor start (log_base self) of
        Inl e \<Rightarrow> Inl e
      | Inr exponent \<Rightarrow>
          (case log_exponent flog rnd ceiling end (log_base self) of
             Inl e \<Rightarrow> Inl e
           | Inr lastExponent \<Rightarrow>
               log_loop fpow rnd (log_base self) (log_subdivisions self) exponent lastExponent []))"

text \<open>
  Values of the C library's logarithm, for the calls evaluated below: the doubles
  \<open>2.302585092994046\<close>, \<open>4.605170185988092\<close>, \<open>6.907755278982137\<close> and
  \<open>9.210340371976184\<close> that \<^verbatim>\<open>math.log\<close> returns for 10, 100, 1000 and 10000 (the
  doubles next to the exact logarithms), and 0 for 1.
\<close>

definition libm_log :: "real \<Rightarrow> real" where
  "libm_log x =
     (if x = 10 then 2592480341699211 / 2 ^ 50
      else if x = 100 then 2592480341699211 / 2 ^ 49
      else if x = 1000 then 243045032034301 / 2 ^ 45
      else if x = 10000 then 2592480341699211 / 2 ^ 48
      else ln x)"

section \<open>The locators as one type\<close>

datatype locator =
    Null
  | Linear LinearLocator
  | Fixed FixedLocator
  | Spaced SpacedLocator
  | Log LogLocator

datatype ticks = Numbers "real list" | Sequence pyseq | Values "pyval list"

text \<open>
  A call of \<^verbatim>\<open>locations\<close> on any locator: whether it returns (\<open>None\<close>: it does not),
  what it returns or raises, and the locator after the call. Only
  \<^verbatim>\<open>FixedLocator.locations\<close> has an assignment to \<^verbatim>\<open>self\<close>.
\<close>

fun locator_locations ::
  "(real \<Rightarrow> real) \<Rightarrow> (real \<Rightarrow> int \<Rightarrow> pyerr + real) \<Rightarrow> (real \<Rightarrow> real) \<Rightarrow>
     locator \<Rightarrow> real \<Rightarrow> real \<Rightarrow> string \<Rightarrow> (pyerr + ticks) option \<times> locator" where
  "locator_locations flog fpow rnd Null start end axisType =
     (Some (Inr (Numbers (NullLocator_locations start end axisType))), Null)"
| "locator_locations flog fpow rnd (Linear self) start end axisType =
     (Some (map_sum id Numbers (LinearLocator_locations rnd self start end axisType)),
      Linear self)"
| "locator_locations flog fpow rnd (Fixed self) start end axisType =
     (case FixedLocator_locations rnd self start end axisType of
        (r, self') \<Rightarrow> (Some (map_sum id Sequence r), Fixed self'))"
| "locator_locations flog fpow rnd (Spaced self) start end axisType =
     (map_option (\<lambda>locs. Inr (Numbers locs))
        (SpacedLocator_locations rnd self start end axisType),
      Spaced self)"
| "locator_locations flog fpow rnd (Log self) start end axisType =
     (Some (map_sum id Values (LogLocator_locations flog fpow rnd self start end axisType)),
      Log self)"

text \<open>The FixedLocator objects that the constructor, the setters and calls of \<^verbatim>\<open>locations\<close> produce.\<close>

inductive FixedLocator_reachable :: "FixedLocator \<Rightarrow> bool" where
  reach_init: "FixedLocator_reachable (FixedLocator_init v nTicks)"
| reach_setLocations:
    "FixedLocator_reachable self \<Longrightarrow> FixedLocator_reachable (FixedLocator_setLocations v self)"
| reach_setNTicks:
    "FixedLocator_reachable self \<Longrightarrow> FixedLocator_reachable (FixedLocator_setNTicks v self)"
| reach_setValues:
    "FixedLocator_reachable self \<Longrightarrow> FixedLocator_reachable (FixedLocator_setValues kwargs self)"
| reach_locations:
    "FixedLocator_reachable self \<Longrightarrow>
     FixedLocator_reachable (snd (FixedLocator_locations rnd self start end axisType))"

fun locator_reachable :: "locator \<Rightarrow> bool" where
  "locator_reachable (Fixed self) = FixedLocator_reachable self"
| "locator_reachable l = True"

section \<open>Labelers\<close>

text \<open>
  The builtin \<^verbatim>\<open>str\<close> returns a byte string as it is; how it renders other values
  (numbers, \<^verbatim>\<open>None\<close>, sequences) is the parameter \<open>render\<close>.
\<close>

fun py_str :: "(pyval \<Rightarrow> string) \<Rightarrow> pyval \<Rightarrow> string" where
  "py_str render (PStr s) = s"
| "py_str render v = render v"

text \<open>
  The operator \<^verbatim>\<open>fmt % arg\<close> on a byte string. After the format is consumed, an
  argument that is neither a tuple nor a mapping and that no conversion has taken raises
  \<^verbatim>\<open>TypeError\<close> (not all arguments converted): so does every format without a
  \<^verbatim>\<open>%\<close> character on a number or \<^verbatim>\<open>None\<close>. Every other case (conversion
  specifiers, tuple and sequence arguments) is the parameter \<open>convert\<close>.
\<close>

fun is_scalar :: "pyval \<Rightarrow> bool" where
  "is_scalar PNone = True"
| "is_scalar (PBool b) = True"
| "is_scalar (PInt n) = True"
| "is_scalar (PLong n) = True"
| "is_scalar (PFloat r) = True"
| "is_scalar v = False"

definition py_percent ::
  "(string \<Rightarrow> pyval \<Rightarrow> pyerr + string) \<Rightarrow> string \<Rightarrow> pyval \<Rightarrow> pyerr + string" where
  "py_percent convert fmt arg =
     (if CHR ''%'' \<notin> set fmt \<and> is_scalar arg then Inl TypeError else convert fmt arg)"

definition NullLabeler_labels :: "pyval list \<Rightarrow> string list" where
  "NullLabeler_labels locations = replicate (length locations) []"

record StringLabeler =
  str_labels :: "pyval list"

definition StringLabeler_setLabels :: "pyval \<Rightarrow> StringLabeler \<Rightarrow> StringLabeler" where
  "StringLabeler_setLabels labels self =
     (if isinstance_list labels \<or> isinstance_tuple labels
      then self\<lparr>str_labels := items labels\<rparr> else self)"

definition StringLabeler_init :: "pyval \<Rightarrow> StringLabeler" where
  "StringLabeler_init labels = StringLabeler_setLabels labels \<lparr>str_labels = []\<rparr>"

definition StringLabeler_labels ::
  "(pyval \<Rightarrow> string) \<Rightarrow> StringLabeler \<Rightarrow> pyval list \<Rightarrow> string list" where
  "StringLabeler_labels render self locations =
     (let locsLength = length locations;
          labelsLength = length (str_labels self);
          strings =
            (if locsLength = labelsLength then str_labels self
             else if locsLength > labelsLength then
               str_labels self @ replicate (locsLength - labelsLength) (PStr [])
             else if locsLength < labelsLength then take locsLength (str_labels self)
             else [])
      in map (py_str render) strings)"

record FormatLabeler =
  fmt_fmt :: "string option"

definition FormatLabeler_setFormatter :: "pyval \<Rightarrow> FormatLabeler \<Rightarrow> FormatLabeler" where
  "FormatLabeler_setFormatter fmt self =
     (case fmt of
        PStr s \<Rightarrow> self\<lparr>fmt_fmt := Some s\<rparr>
      | PNone \<Rightarrow> self\<lparr>fmt_fmt := None\<rparr>
      | _ \<Rightarrow> self)"

definition FormatLabeler_init :: "pyval \<Rightarrow> FormatLabeler" where
  "FormatLabeler_init fmt = FormatLabeler_setFormatter fmt \<lparr>fmt_fmt = None\<rparr>"

definition FormatLabeler_labels ::
  "(pyval \<Rightarrow> string) \<Rightarrow> (string \<Rightarrow> pyval \<Rightarrow> pyerr + string) \<Rightarrow>
   FormatLabeler \<Rightarrow> pyval list \<Rightarrow> pyerr + string list" where
  "FormatLabeler_labels render convert self locations =
     (let strings = map (py_str render) locations in
      case fmt_fmt self of
        None \<Rightarrow> Inr strings
      | Some fmt \<Rightarrow> map_raise (\<lambda>loc. py_percent convert fmt loc) locations)"

section \<open>The labelers as one type\<close>

datatype labeler =
    NullL
  | StringL StringLabeler
  | FormatL FormatLabeler

text \<open>A call of \<^verbatim>\<open>labels\<close> on any labeler, with the labeler after the call.\<close>

fun labeler_labels ::
  "(pyval \<Rightarrow> string) \<Rightarrow> (string \<Rightarrow> pyval \<Rightarrow> pyerr + string) \<Rightarrow>
   labeler \<Rightarrow> pyval list \<Rightarrow> (pyerr + string list) \<times> labeler" where
  "labeler_labels render convert NullL positions = (Inr (NullLabeler_labels positions), NullL)"
| "labeler_labels render convert (StringL self) positions =
     (Inr (StringLabeler_labels render self positions), StringL self)"
| "labeler_labels render convert (FormatL self) positions =
     (FormatLabeler_labels render convert self positions, FormatL self)"

section \<open>Properties of the arithmetic\<close>

lemma fround_int: "\<bar>k\<bar> \<le> 2 ^ 53 \<Longrightarrow> fround rnd (real_of_int k) = real_of_int k"
proof -
  assume "\<bar>k\<bar> \<le> 2 ^ 53"
  then have "\<bar>real_of_int k\<bar> \<le> 2 ^ 53"
    by (metis of_int_abs of_int_le_iff of_int_numeral of_int_power)
  then show ?thesis by (simp add: fround_def)
qed

lemma fround_between:
  "real_of_int n < x \<Longrightarrow> x < real_of_int n + 1 \<Longrightarrow> fround rnd x = rnd x"
proof -
  assume a: "real_of_int n < x" "x < real_of_int n + 1"
  have "x \<notin> \<int>"
  proof
    assume "x \<in> \<int>"
    then obtain k where "x = real_of_int k" by (auto elim: Ints_cases)
    with a show False by simp
  qed
  then show ?thesis by (simp add: fround_def)
qed

lemma fround_large: "2 ^ 53 < \<bar>x\<bar> \<Longrightarrow> fround rnd x = rnd x"
  by (simp add: fround_def)

lemma round_half_even_near:
  "\<bar>y - real_of_int n\<bar> < 1 / 2 \<Longrightarrow> round_half_even y = n"
proof -
  assume a: "\<bar>y - real_of_int n\<bar> < 1 / 2"
  show ?thesis
  proof (cases "real_of_int n \<le> y")
    case True
    with a have "\<lfloor>y\<rfloor> = n" by (intro floor_unique) (simp_all add: abs_if split: if_splits)
    with a True show ?thesis by (simp add: round_half_even_def Let_def)
  next
    case False
    with a have f: "\<lfloor>y\<rfloor> = n - 1" by (intro floor_unique) (simp_all add: abs_if split: if_splits)
    from a False have "1 / 2 < y - real_of_int (n - 1)" by (simp add: abs_if split: if_splits)
    with f show ?thesis by (simp add: round_half_even_def Let_def)
  qed
qed


lemma double_round_eq:
  assumes "2 powi k \<le> \<bar>x\<bar>" and "\<bar>x\<bar> < 2 powi (k + 1)"
  shows "double_round x = real_of_int (round_half_even (x / 2 powi (k - 52))) * 2 powi (k - 52)"
proof -
  have pos: "0 < \<bar>x\<bar>"
  proof -
    have "(0::real) < 2 powi k" by simp
    with assms(1) show ?thesis by linarith
  qed
  have p1: "(2::real) powr real_of_int k = 2 powi k"
    by (rule powr_real_of_int') simp_all
  have p2: "(2::real) powr real_of_int (k + 1) = 2 powi (k + 1)"
    by (rule powr_real_of_int') simp_all
  have "2 powr real_of_int k \<le> \<bar>x\<bar> \<and> \<bar>x\<bar> < 2 powr real_of_int (k + 1)"
    unfolding p1 p2 using assms by simp
  then have "\<lfloor>log 2 \<bar>x\<bar>\<rfloor> = k"
    using pos by (subst floor_log_eq_powr_iff) simp_all
  with pos show ?thesis by (simp add: double_round_def Let_def)
qed

lemma double_fround_near:
  assumes "real_of_int n < x" and "x < real_of_int n + 1"
    and "2 powi k \<le> \<bar>x\<bar>" and "\<bar>x\<bar> < 2 powi (k + 1)"
    and "\<bar>x / 2 powi (k - 52) - real_of_int m\<bar> < 1 / 2"
  shows "fround double_round x = real_of_int m * 2 powi (k - 52)"
  using fround_between [OF assms(1,2)] double_round_eq [OF assms(3,4)]
    round_half_even_near [OF assms(5)]
  by simp



text \<open>
  The rounding of doubles returns every integer of magnitude up to \<open>2^53\<close> as it is: with
  \<open>double_round\<close> for \<open>rnd\<close>, the function \<open>fround\<close> is \<open>double_round\<close> itself.
\<close>

lemma round_half_even_of_int: "round_half_even (real_of_int n) = n"
  using round_half_even_near [of "real_of_int n" n] by simp

lemma double_round_int:
  assumes "\<bar>k\<bar> \<le> 2 ^ 53"
  shows "double_round (real_of_int k) = real_of_int k"
proof (cases "k = 0")
  case True
  then show ?thesis by (simp add: double_round_def)
next
  case False
  define j where "j = \<lfloor>log 2 \<bar>real_of_int k\<bar>\<rfloor>"
  have pos: "0 < \<bar>real_of_int k\<bar>" using False by simp
  have p1: "(2::real) powr real_of_int j = 2 powi j"
    by (rule powr_real_of_int') simp_all
  have p2: "(2::real) powr real_of_int (j + 1) = 2 powi (j + 1)"
    by (rule powr_real_of_int') simp_all
  have "2 powr real_of_int j \<le> \<bar>real_of_int k\<bar> \<and> \<bar>real_of_int k\<bar> < 2 powr real_of_int (j + 1)"
    using pos j_def by (subst floor_log_eq_powr_iff [symmetric]) simp_all
  then have b: "2 powi j \<le> \<bar>real_of_int k\<bar>" "\<bar>real_of_int k\<bar> < 2 powi (j + 1)"
    unfolding p1 p2 by simp_all
  have kr: "\<bar>real_of_int k\<bar> \<le> 2 ^ 53"
    using assms by (metis of_int_abs of_int_le_iff of_int_numeral of_int_power)
  have j53: "j \<le> 53"
  proof (rule ccontr)
    assume "\<not> j \<le> 53"
    then have "54 \<le> j" by simp
    then have "(2::real) powi 54 \<le> 2 powi j" by (intro power_int_increasing) simp_all
    with b(1) kr show False by simp
  qed
  have dr: "double_round (real_of_int k) =
      real_of_int (round_half_even (real_of_int k / 2 powi (j - 52))) * 2 powi (j - 52)"
    by (rule double_round_eq [OF b])
  show ?thesis
  proof (cases "j \<le> 52")
    case True
    define n where "n = nat (52 - j)"
    have e: "(2::real) powi (j - 52) = 1 / 2 ^ n"
    proof -
      have "j - 52 = - int n" using True by (simp add: n_def)
      then have "(2::real) powi (j - 52) = 2 powi (- int n)" by (simp only:)
      also have "\<dots> = inverse (2 powi int n)" by (rule power_int_minus)
      also have "\<dots> = 1 / 2 ^ n" by (simp add: inverse_eq_divide)
      finally show ?thesis .
    qed
    have "real_of_int k / 2 powi (j - 52) = real_of_int (k * 2 ^ n)"
      by (simp add: e)
    then have "round_half_even (real_of_int k / 2 powi (j - 52)) = k * 2 ^ n"
      by (simp only: round_half_even_of_int)
    then show ?thesis by (simp add: dr e)
  next
    case False
    with j53 have j: "j = 53" by simp
    from b(1) kr have "\<bar>real_of_int k\<bar> = 2 ^ 53" by (simp add: j)
    then have "\<bar>k\<bar> = 2 ^ 53"
      by (metis of_int_abs of_int_eq_iff of_int_numeral of_int_power)
    then have "k = 2 ^ 53 \<or> k = - (2 ^ 53)" by (simp add: abs_if split: if_splits)
    then show ?thesis
    proof
      assume k: "k = 2 ^ 53"
      have "double_round (2 ^ 53) =
          real_of_int (round_half_even (2 ^ 53 / 2 powi (53 - 52))) * 2 powi (53 - 52)"
        by (rule double_round_eq) simp_all
      also have "round_half_even (2 ^ 53 / 2 powi (53 - 52)) = 2 ^ 52"
        using round_half_even_of_int [of "2 ^ 52"] by simp
      finally show ?thesis by (simp add: k)
    next
      assume k: "k = - (2 ^ 53)"
      have "double_round (- (2 ^ 53)) =
          real_of_int (round_half_even (- (2 ^ 53) / 2 powi (53 - 52))) * 2 powi (53 - 52)"
        by (rule double_round_eq) simp_all
      also have "round_half_even (- (2 ^ 53) / 2 powi (53 - 52)) = - (2 ^ 52)"
        using round_half_even_of_int [of "- (2 ^ 52)"] by simp
      finally show ?thesis by (simp add: k)
    qed
  qed
qed

lemma fround_double_round: "fround double_round x = double_round x"
proof (cases "x \<in> \<int> \<and> \<bar>x\<bar> \<le> 2 ^ 53")
  case True
  then obtain k where k: "x = real_of_int k" by (auto elim: Ints_cases)
  with True have "\<bar>real_of_int k\<bar> \<le> 2 ^ 53" by simp
  then have "\<bar>k\<bar> \<le> 2 ^ 53"
    by (metis of_int_abs of_int_le_iff of_int_numeral of_int_power)
  from double_round_int [OF this] True k show ?thesis by (simp add: fround_def)
next
  case False
  then show ?thesis by (auto simp: fround_def)
qed

section \<open>Properties of LinearLocator\<close>





text \<open>
  C9. With count 1 and an axis type other than \<^verbatim>\<open>minor\<close> (so \<open>n = 1\<close>) the divisor
  \<open>n - 1\<close> of the spacing formula is zero: the call raises \<^verbatim>\<open>ZeroDivisionError\<close> and
  returns no list. The constructor yields such a locator.
\<close>

theorem LinearLocator_locations_single_tick:
  "lin_num self = 1 \<Longrightarrow> axisType \<noteq> ''minor'' \<Longrightarrow>
   LinearLocator_locations rnd self start end axisType = Inl ZeroDivisionError"
  by (simp add: LinearLocator_locations_def float_div_def)

theorem LinearLocator_locations_single_tick_witness:
  "lin_num (LinearLocator_init (PInt 1)) = 1 \<and>
   LinearLocator_locations double_round (LinearLocator_init (PInt 1)) 0 100 ''major'' =
     Inl ZeroDivisionError"
  using LinearLocator_locations_single_tick
    [of "LinearLocator_init (PInt 1)" "''major''" double_round 0 100]
  by (simp add: LinearLocator_init_def LinearLocator_setNum_def)

section \<open>Properties of the labelers\<close>

lemma map_raise_length: "map_raise f xs = Inr ys \<Longrightarrow> length ys = length xs"
  by (induction xs arbitrary: ys) (auto split: sum.splits)

lemma map_raise_Inr_iff: "(\<exists>ys. map_raise f xs = Inr ys) \<longleftrightarrow> (\<forall>x \<in> set xs. \<exists>y. f x = Inr y)"
  by (induction xs) (auto split: sum.splits)

text \<open>
  C1, as the code has it. NullLabeler and StringLabeler always return as many strings as
  there are positions; StringLabeler returns the first \<open>length positions\<close> configured
  labels and pads with empty strings. FormatLabeler without a format returns one string
  per position; with a format it returns a list exactly when the format applies to every
  position, and the list then has the length of the input. Otherwise the call raises the
  error of the formatting operator and returns nothing.
\<close>

theorem labels_length:
  "length (NullLabeler_labels positions) = length positions \<and>
   length (StringLabeler_labels render sl positions) = length positions \<and>
   StringLabeler_labels render sl positions =
     map (py_str render) (take (length positions) (str_labels sl)) @
     replicate (length positions - length (str_labels sl)) [] \<and>
   (fmt_fmt fl = None \<longrightarrow>
      FormatLabeler_labels render convert fl positions = Inr (map (py_str render) positions)) \<and>
   (\<forall>ys. FormatLabeler_labels render convert fl positions = Inr ys \<longrightarrow>
      length ys = length positions) \<and>
   (\<forall>fmt. fmt_fmt fl = Some fmt \<longrightarrow>
      ((\<exists>ys. FormatLabeler_labels render convert fl positions = Inr ys) \<longleftrightarrow>
       (\<forall>p \<in> set positions. \<exists>s. py_percent convert fmt p = Inr s)))"
proof (intro conjI allI impI)
  show "length (NullLabeler_labels positions) = length positions"
    by (simp add: NullLabeler_labels_def)
  show "length (StringLabeler_labels render sl positions) = length positions"
    by (simp add: StringLabeler_labels_def Let_def)
  show "StringLabeler_labels render sl positions =
     map (py_str render) (take (length positions) (str_labels sl)) @
     replicate (length positions - length (str_labels sl)) []"
    by (simp add: StringLabeler_labels_def Let_def)
  show "FormatLabeler_labels render convert fl positions = Inr (map (py_str render) positions)"
    if "fmt_fmt fl = None"
    using that by (simp add: FormatLabeler_labels_def)
  show "length ys = length positions"
    if "FormatLabeler_labels render convert fl positions = Inr ys" for ys
    using that
    by (auto simp: FormatLabeler_labels_def Let_def split: option.splits dest: map_raise_length)
  show "(\<exists>ys. FormatLabeler_labels render convert fl positions = Inr ys) \<longleftrightarrow>
       (\<forall>p \<in> set positions. \<exists>s. py_percent convert fmt p = Inr s)"
    if "fmt_fmt fl = Some fmt" for fmt
    using that by (simp add: FormatLabeler_labels_def map_raise_Inr_iff)
qed

theorem labels_length_witness:
  "StringLabeler_labels (\<lambda>v. ''?'') \<lparr>str_labels = [PStr ''a'', PStr ''b'']\<rparr> [PInt 1, PInt 2, PInt 3] =
     [''a'', ''b'', []] \<and>
   StringLabeler_labels (\<lambda>v. ''?'') \<lparr>str_labels = [PStr ''a'', PStr ''b'', PStr ''c'']\<rparr> [PInt 1] =
     [''a''] \<and>
   FormatLabeler_labels (\<lambda>v. ''?'') (\<lambda>f a. Inr f) \<lparr>fmt_fmt = None\<rparr> [PInt 1, PStr ''x''] =
     Inr [''?'', ''x''] \<and>
   (\<exists>ys. FormatLabeler_labels (\<lambda>v. ''?'') (\<lambda>f a. Inr f) \<lparr>fmt_fmt = Some ''%d''\<rparr> [PInt 1, PInt 2] =
     Inr ys) \<and>
   (\<nexists>ys. FormatLabeler_labels (\<lambda>v. ''?'') (\<lambda>f a. Inr f) \<lparr>fmt_fmt = Some ''abc''\<rparr> [PInt 1] =
     Inr ys)"
proof -
  have pad: "StringLabeler_labels (\<lambda>v. ''?'') \<lparr>str_labels = [PStr ''a'', PStr ''b'']\<rparr>
      [PInt 1, PInt 2, PInt 3] = [''a'', ''b'', []]"
    using labels_length [of "[PInt 1, PInt 2, PInt 3]" "\<lambda>v. ''?''"
        "\<lparr>str_labels = [PStr ''a'', PStr ''b'']\<rparr>"]
    by simp
  have cut: "StringLabeler_labels (\<lambda>v. ''?'') \<lparr>str_labels = [PStr ''a'', PStr ''b'', PStr ''c'']\<rparr>
      [PInt 1] = [''a'']"
    using labels_length [of "[PInt 1]" "\<lambda>v. ''?''"
        "\<lparr>str_labels = [PStr ''a'', PStr ''b'', PStr ''c'']\<rparr>"]
    by simp
  have plain: "FormatLabeler_labels (\<lambda>v. ''?'') (\<lambda>f a. Inr f) \<lparr>fmt_fmt = None\<rparr>
      [PInt 1, PStr ''x''] = Inr [''?'', ''x'']"
    using labels_length [of "[PInt 1, PStr ''x'']" "\<lambda>v. ''?''" _ "\<lparr>fmt_fmt = None\<rparr>" "\<lambda>f a. Inr f"]
    by simp
  have good: "\<exists>ys. FormatLabeler_labels (\<lambda>v. ''?'') (\<lambda>f a. Inr f) \<lparr>fmt_fmt = Some ''%d''\<rparr>
      [PInt 1, PInt 2] = Inr ys"
    using labels_length [of "[PInt 1, PInt 2]" "\<lambda>v. ''?''" _ "\<lparr>fmt_fmt = Some ''%d''\<rparr>" "\<lambda>f a. Inr f"]
    by (simp add: py_percent_def)
  have bad: "\<nexists>ys. FormatLabeler_labels (\<lambda>v. ''?'') (\<lambda>f a. Inr f) \<lparr>fmt_fmt = Some ''abc''\<rparr>
      [PInt 1] = Inr ys"
    using labels_length [of "[PInt 1]" "\<lambda>v. ''?''" _ "\<lparr>fmt_fmt = Some ''abc''\<rparr>" "\<lambda>f a. Inr f"]
    by (simp add: py_percent_def)
  from pad cut plain good bad show ?thesis by blast
qed

text \<open>
  C1 as it is stated fails: a FormatLabeler built with the format \<^verbatim>\<open>'abc'\<close> (a string, so
  \<^verbatim>\<open>setFormatter\<close> stores it) raises \<^verbatim>\<open>TypeError\<close> on the one position \<open>1\<close>,
  whatever the rendering of values and the conversions are: it returns no sequence at all.
\<close>

theorem labels_length_counterexample:
  "\<forall>render convert.
     FormatLabeler_labels render convert (FormatLabeler_init (PStr ''abc'')) [PInt 1] = Inl TypeError"
  by (simp add: FormatLabeler_labels_def FormatLabeler_init_def FormatLabeler_setFormatter_def
      py_percent_def)

section \<open>Properties of the setters\<close>

text \<open>
  C8. \<^verbatim>\<open>SpacedLocator.setValues\<close> without the key \<^verbatim>\<open>anchor\<close> leaves the anchor as it
  is, with \<^verbatim>\<open>anchor=None\<close> clears it, with a number sets it to that number; the base
  is kept when the key \<^verbatim>\<open>base\<close> is absent and set when it holds a positive number,
  whatever the anchor key is.
\<close>

theorem SpacedLocator_setValues_anchor:
  "(kwargs ''anchor'' = None \<longrightarrow>
      sp_anchor (SpacedLocator_setValues kwargs self) = sp_anchor self) \<and>
   (kwargs ''anchor'' = Some PNone \<longrightarrow>
      sp_anchor (SpacedLocator_setValues kwargs self) = None) \<and>
   (kwargs ''anchor'' = Some v \<and> (isinstance_int v \<or> isinstance_float v) \<longrightarrow>
      sp_anchor (SpacedLocator_setValues kwargs self) = Some (num_value v)) \<and>
   (kwargs ''base'' = None \<longrightarrow>
      sp_base (SpacedLocator_setValues kwargs self) = sp_base self) \<and>
   (kwargs ''base'' = Some b \<and> (isinstance_int b \<or> isinstance_float b) \<and> 0 < num_value b \<longrightarrow>
      sp_base (SpacedLocator_setValues kwargs self) = num_value b)"
  by (auto simp: SpacedLocator_setValues_def SpacedLocator_setAnchor_def SpacedLocator_setBase_def
      kwargs_pop_def Let_def)

theorem SpacedLocator_setValues_anchor_witness:
  "sp_anchor (SpacedLocator_setValues [''base'' \<mapsto> PInt 5] \<lparr>sp_base = 1, sp_anchor = Some 3\<rparr>) = Some 3 \<and>
   sp_base (SpacedLocator_setValues [''base'' \<mapsto> PInt 5] \<lparr>sp_base = 1, sp_anchor = Some 3\<rparr>) = 5 \<and>
   sp_anchor (SpacedLocator_setValues [''anchor'' \<mapsto> PNone] \<lparr>sp_base = 1, sp_anchor = Some 3\<rparr>) = None \<and>
   sp_base (SpacedLocator_setValues [''anchor'' \<mapsto> PNone] \<lparr>sp_base = 1, sp_anchor = Some 3\<rparr>) = 1 \<and>
   sp_anchor (SpacedLocator_setValues [''anchor'' \<mapsto> PFloat 7] \<lparr>sp_base = 1, sp_anchor = None\<rparr>) = Some 7"
  using SpacedLocator_setValues_anchor [of "[''base'' \<mapsto> PInt 5]" "\<lparr>sp_base = 1, sp_anchor = Some 3\<rparr>" PNone "PInt 5"]
    SpacedLocator_setValues_anchor [of "[''anchor'' \<mapsto> PNone]" "\<lparr>sp_base = 1, sp_anchor = Some 3\<rparr>" PNone PNone]
    SpacedLocator_setValues_anchor [of "[''anchor'' \<mapsto> PFloat 7]" "\<lparr>sp_base = 1, sp_anchor = None\<rparr>" "PFloat 7" PNone]
  by simp

text \<open>
  C3, as the code has it. No setter raises (each is a total function of its argument and
  the object), and each leaves the object as it is on every argument it rejects. What is
  rejected is decided by the type alone: \<^verbatim>\<open>setNum\<close> rejects what is not an \<^verbatim>\<open>int\<close>;
  \<^verbatim>\<open>setLocations\<close>, \<^verbatim>\<open>setSubdivisions\<close> and \<^verbatim>\<open>setLabels\<close> what is neither a list
  nor a tuple; \<^verbatim>\<open>setNTicks\<close> what is neither \<^verbatim>\<open>None\<close> nor an \<^verbatim>\<open>int\<close>;
  \<^verbatim>\<open>LogLocator.setBase\<close> what is neither an \<^verbatim>\<open>int\<close> nor a \<^verbatim>\<open>float\<close>;
  \<^verbatim>\<open>setAnchor\<close> what is not an \<^verbatim>\<open>int\<close>, a \<^verbatim>\<open>float\<close> or \<^verbatim>\<open>None\<close>;
  \<^verbatim>\<open>setFormatter\<close> what is neither a \<^verbatim>\<open>str\<close> nor \<^verbatim>\<open>None\<close>. Only
  \<^verbatim>\<open>SpacedLocator.setBase\<close> also looks at the sign and rejects numbers that are not
  positive. \<^verbatim>\<open>setNum\<close> and \<^verbatim>\<open>LogLocator.setBase\<close> store every integer (number) they
  are given, and \<^verbatim>\<open>setNTicks\<close> stores 2 for an integer below 2. A rejected
  \<^verbatim>\<open>setNum\<close> leaves the result of \<^verbatim>\<open>locations\<close> as it was.
\<close>

theorem setters_reject_unchanged:
  "(\<not> isinstance_int v \<longrightarrow> LinearLocator_setNum v lin = lin) \<and>
   (\<not> isinstance_int v \<longrightarrow>
      LinearLocator_locations rnd (LinearLocator_setNum v lin) start end axisType =
      LinearLocator_locations rnd lin start end axisType) \<and>
   (isinstance_int v \<longrightarrow> lin_num (LinearLocator_setNum v lin) = int_value v) \<and>
   (\<not> (isinstance_list v \<or> isinstance_tuple v) \<longrightarrow> FixedLocator_setLocations v fix = fix) \<and>
   (v \<noteq> PNone \<and> \<not> isinstance_int v \<longrightarrow> FixedLocator_setNTicks v fix = fix) \<and>
   (isinstance_int v \<and> int_value v < 2 \<longrightarrow>
      fix_nTicks (FixedLocator_setNTicks v fix) = Some (Some 2)) \<and>
   (\<not> ((isinstance_int v \<or> isinstance_float v) \<and> 0 < num_value v) \<longrightarrow>
      SpacedLocator_setBase v sp = sp) \<and>
   (\<not> (isinstance_int v \<or> isinstance_float v \<or> v = PNone) \<longrightarrow>
      SpacedLocator_setAnchor v sp = sp) \<and>
   (\<not> (isinstance_int v \<or> isinstance_float v) \<longrightarrow> LogLocator_setBase v lg = lg) \<and>
   (isinstance_int v \<or> isinstance_float v \<longrightarrow> log_base (LogLocator_setBase v lg) = v) \<and>
   (\<not> (isinstance_list v \<or> isinstance_tuple v) \<longrightarrow> LogLocator_setSubdivisions v lg = lg) \<and>
   (\<not> (isinstance_list v \<or> isinstance_tuple v) \<longrightarrow> StringLabeler_setLabels v sl = sl) \<and>
   (\<not> (isinstance_str v \<or> v = PNone) \<longrightarrow> FormatLabeler_setFormatter v fl = fl)"
proof (intro conjI impI)
  show "LinearLocator_setNum v lin = lin" if "\<not> isinstance_int v"
    using that by (simp add: LinearLocator_setNum_def)
  then show "LinearLocator_locations rnd (LinearLocator_setNum v lin) start end axisType =
      LinearLocator_locations rnd lin start end axisType" if "\<not> isinstance_int v"
    using that by simp
  show "lin_num (LinearLocator_setNum v lin) = int_value v" if "isinstance_int v"
    using that by (simp add: LinearLocator_setNum_def)
  show "FixedLocator_setLocations v fix = fix" if "\<not> (isinstance_list v \<or> isinstance_tuple v)"
    using that by (cases v) (simp_all add: FixedLocator_setLocations_def)
  show "FixedLocator_setNTicks v fix = fix" if "v \<noteq> PNone \<and> \<not> isinstance_int v"
    using that by (simp add: FixedLocator_setNTicks_def)
  show "fix_nTicks (FixedLocator_setNTicks v fix) = Some (Some 2)"
    if "isinstance_int v \<and> int_value v < 2"
    using that by (cases v) (simp_all add: FixedLocator_setNTicks_def)
  show "SpacedLocator_setBase v sp = sp"
    if "\<not> ((isinstance_int v \<or> isinstance_float v) \<and> 0 < num_value v)"
    using that by (auto simp: SpacedLocator_setBase_def)
  show "SpacedLocator_setAnchor v sp = sp"
    if "\<not> (isinstance_int v \<or> isinstance_float v \<or> v = PNone)"
    using that by (simp add: SpacedLocator_setAnchor_def)
  show "LogLocator_setBase v lg = lg" if "\<not> (isinstance_int v \<or> isinstance_float v)"
    using that by (simp add: LogLocator_setBase_def)
  show "log_base (LogLocator_setBase v lg) = v" if "isinstance_int v \<or> isinstance_float v"
    using that by (simp add: LogLocator_setBase_def)
  show "LogLocator_setSubdivisions v lg = lg" if "\<not> (isinstance_list v \<or> isinstance_tuple v)"
    using that by (simp add: LogLocator_setSubdivisions_def)
  show "StringLabeler_setLabels v sl = sl" if "\<not> (isinstance_list v \<or> isinstance_tuple v)"
    using that by (simp add: StringLabeler_setLabels_def)
  show "FormatLabeler_setFormatter v fl = fl" if "\<not> (isinstance_str v \<or> v = PNone)"
    using that by (cases v) (simp_all add: FormatLabeler_setFormatter_def)
qed

theorem setters_reject_unchanged_witness:
  "LinearLocator_setNum (PFloat (5 / 2)) \<lparr>lin_num = 5\<rparr> = \<lparr>lin_num = 5\<rparr> \<and>
   LinearLocator_locations double_round
       (LinearLocator_setNum (PFloat (5 / 2)) \<lparr>lin_num = 5\<rparr>) 0 100 ''major'' =
     LinearLocator_locations double_round \<lparr>lin_num = 5\<rparr> 0 100 ''major'' \<and>
   lin_num (LinearLocator_setNum (PInt 7) \<lparr>lin_num = 5\<rparr>) = 7 \<and>
   fix_nTicks (FixedLocator_setNTicks (PInt 1) \<lparr>fix_locations = SeqList [], fix_nTicks = Some (Some 5)\<rparr>) =
     Some (Some 2) \<and>
   SpacedLocator_setBase (PInt (- 2)) \<lparr>sp_base = 1, sp_anchor = None\<rparr> =
     \<lparr>sp_base = 1, sp_anchor = None\<rparr> \<and>
   SpacedLocator_setAnchor (PStr ''x'') \<lparr>sp_base = 1, sp_anchor = Some 3\<rparr> =
     \<lparr>sp_base = 1, sp_anchor = Some 3\<rparr> \<and>
   FormatLabeler_setFormatter (PInt 3) \<lparr>fmt_fmt = Some ''%d''\<rparr> = \<lparr>fmt_fmt = Some ''%d''\<rparr>"
proof -
  note a = setters_reject_unchanged [of "PFloat (5 / 2)" "\<lparr>lin_num = 5\<rparr>" double_round 0 100 "''major''"]
  note b = setters_reject_unchanged [of "PInt 7" "\<lparr>lin_num = 5\<rparr>"]
  note c = setters_reject_unchanged [of "PInt 1" _ _ _ _ _
      "\<lparr>fix_locations = SeqList [], fix_nTicks = Some (Some 5)\<rparr>"]
  note d = setters_reject_unchanged [of "PInt (- 2)" _ _ _ _ _ _ "\<lparr>sp_base = 1, sp_anchor = None\<rparr>"]
  note e = setters_reject_unchanged [of "PStr ''x''" _ _ _ _ _ _ "\<lparr>sp_base = 1, sp_anchor = Some 3\<rparr>"]
  note f = setters_reject_unchanged [of "PInt 3" _ _ _ _ _ _ _ _ _ "\<lparr>fmt_fmt = Some ''%d''\<rparr>"]
  from a have 1: "LinearLocator_setNum (PFloat (5 / 2)) \<lparr>lin_num = 5\<rparr> = \<lparr>lin_num = 5\<rparr>"
    by simp
  from b have 2: "lin_num (LinearLocator_setNum (PInt 7) \<lparr>lin_num = 5\<rparr>) = 7" by simp
  from c have 3: "fix_nTicks (FixedLocator_setNTicks (PInt 1)
      \<lparr>fix_locations = SeqList [], fix_nTicks = Some (Some 5)\<rparr>) = Some (Some 2)" by simp
  from d have 4: "SpacedLocator_setBase (PInt (- 2)) \<lparr>sp_base = 1, sp_anchor = None\<rparr> =
     \<lparr>sp_base = 1, sp_anchor = None\<rparr>" by simp
  from e have 5: "SpacedLocator_setAnchor (PStr ''x'') \<lparr>sp_base = 1, sp_anchor = Some 3\<rparr> =
     \<lparr>sp_base = 1, sp_anchor = Some 3\<rparr>" by simp
  from f have 6: "FormatLabeler_setFormatter (PInt 3) \<lparr>fmt_fmt = Some ''%d''\<rparr> =
     \<lparr>fmt_fmt = Some ''%d''\<rparr>" by simp
  from 1 2 3 4 5 6 show ?thesis by simp
qed

text \<open>
  C3 as it is stated fails: \<^verbatim>\<open>setNum(-3)\<close> is not rejected for its sign, the count
  becomes \<open>-3\<close> and \<^verbatim>\<open>locations(0, 100)\<close> changes from five ticks to the single
  tick 100; \<^verbatim>\<open>setNTicks(1)\<close> changes a tick limit of 5 to 2;
  \<^verbatim>\<open>LogLocator.setBase(-10)\<close> stores the negative base.
\<close>

theorem setters_validate_counterexample:
  "LinearLocator_setNum (PInt (- 3)) \<lparr>lin_num = 5\<rparr> = \<lparr>lin_num = - 3\<rparr> \<and>
   LinearLocator_locations double_round \<lparr>lin_num = 5\<rparr> 0 100 ''major'' =
     Inr [0, 25, 50, 75, 100] \<and>
   LinearLocator_locations double_round
       (LinearLocator_setNum (PInt (- 3)) \<lparr>lin_num = 5\<rparr>) 0 100 ''major'' =
     Inr [100] \<and>
   FixedLocator_setNTicks (PInt 1) \<lparr>fix_locations = SeqList [], fix_nTicks = Some (Some 5)\<rparr> =
     \<lparr>fix_locations = SeqList [], fix_nTicks = Some (Some 2)\<rparr> \<and>
   LogLocator_setBase (PInt (- 10)) \<lparr>log_base = PInt 10, log_subdivisions = [PInt 1]\<rparr> =
     \<lparr>log_base = PInt (- 10), log_subdivisions = [PInt 1]\<rparr>"
proof -
  have d: "fround double_round 100 = 100" "fround double_round 25 = 25"
    "fround double_round 50 = 50" "fround double_round 75 = 75"
    "fround double_round (- 25) = - 25"
    by (simp_all add: fround_def)
  show ?thesis
    by (simp add: LinearLocator_setNum_def LinearLocator_locations_def FixedLocator_setNTicks_def
        LogLocator_setBase_def Let_def eval_nat_numeral float_div_def float_sub_def
        float_add_def d)
qed

section \<open>Properties of FixedLocator\<close>

lemma round_half_even_error: "\<bar>real_of_int (round_half_even y) - y\<bar> \<le> 1 / 2"
proof -
  define f where "f = \<lfloor>y\<rfloor>"
  have "real_of_int f \<le> y" "y < real_of_int f + 1" unfolding f_def by linarith+
  then have "\<bar>real_of_int (if y - real_of_int f < 1 / 2 then f
      else if 1 / 2 < y - real_of_int f then f + 1
      else if even f then f else f + 1) - y\<bar> \<le> 1 / 2"
    by (auto simp: abs_if)
  then show ?thesis
    unfolding round_half_even_def Let_def f_def .
qed

text \<open>The rounding of doubles has a relative error of at most \<open>2^-53\<close>.\<close>

lemma double_round_accurate: "\<bar>double_round x - x\<bar> \<le> \<bar>x\<bar> / 2 ^ 53"
proof (cases "x = 0")
  case True
  then show ?thesis by (simp add: double_round_def)
next
  case False
  define k where "k = \<lfloor>log 2 \<bar>x\<bar>\<rfloor>"
  define s :: real where "s = 2 powi (k - 52)"
  have pos: "0 < \<bar>x\<bar>" using False by simp
  have p1: "(2::real) powr real_of_int k = 2 powi k"
    by (rule powr_real_of_int') simp_all
  have p2: "(2::real) powr real_of_int (k + 1) = 2 powi (k + 1)"
    by (rule powr_real_of_int') simp_all
  have "2 powr real_of_int k \<le> \<bar>x\<bar> \<and> \<bar>x\<bar> < 2 powr real_of_int (k + 1)"
    using pos k_def by (subst floor_log_eq_powr_iff [symmetric]) simp_all
  then have b: "2 powi k \<le> \<bar>x\<bar>" "\<bar>x\<bar> < 2 powi (k + 1)"
    unfolding p1 p2 by simp_all
  have s: "0 < s" by (simp add: s_def)
  have dr: "double_round x = real_of_int (round_half_even (x / s)) * s"
    unfolding s_def by (rule double_round_eq [OF b])
  have "double_round x - x = (real_of_int (round_half_even (x / s)) - x / s) * s"
    using s by (simp add: dr field_simps)
  then have "\<bar>double_round x - x\<bar> = \<bar>real_of_int (round_half_even (x / s)) - x / s\<bar> * s"
    using s by (simp add: abs_mult)
  also have "\<dots> \<le> 1 / 2 * s"
    using s round_half_even_error [of "x / s"] by (intro mult_right_mono) simp_all
  also have "1 / 2 * s = 2 powi k / 2 ^ 53"
  proof -
    have "(2::real) powi k = 2 powi ((k - 52) + 52)" by simp
    also have "\<dots> = 2 powi (k - 52) * 2 powi 52"
      by (rule power_int_add) simp
    finally show ?thesis by (simp add: s_def)
  qed
  also have "\<dots> \<le> \<bar>x\<bar> / 2 ^ 53"
    using b(1) by (simp add: divide_right_mono)
  finally show ?thesis .
qed

lemma fround_accurate:
  assumes "\<forall>x. \<bar>rnd x - x\<bar> \<le> \<bar>x\<bar> / 2 ^ 53"
  shows "\<bar>fround rnd x - x\<bar> \<le> \<bar>x\<bar> / 2 ^ 53"
  using assms by (simp add: fround_def)

lemma subsample_index_bounds:
  assumes acc: "\<forall>x. \<bar>rnd x - x\<bar> \<le> \<bar>x\<bar> / 2 ^ 53"
    and i: "i < n" and n: "n \<le> 2 ^ 51" and l: "0 \<le> l"
  shows "0 \<le> py_round (float_mul rnd (real i) (fround rnd (real_of_int l / real n)))"
    and "py_round (float_mul rnd (real i) (fround rnd (real_of_int l / real n))) < l + 1"
proof -
  define e :: real where "e = 1 / 2 ^ 53"
  define q where "q = real_of_int l / real n"
  define d where "d = fround rnd q"
  define p where "p = real i * d"
  define m where "m = fround rnd p"
  have e: "0 < e" "e \<le> 1" by (simp_all add: e_def)
  have npos: "0 < real n" using i by simp
  have q0: "0 \<le> q" using l npos by (simp add: q_def)
  have "\<bar>d - q\<bar> \<le> \<bar>q\<bar> * e"
    using fround_accurate [OF acc, of q] by (simp add: d_def e_def)
  with q0 have dq: "\<bar>d - q\<bar> \<le> q * e" by simp
  have d_lo: "q * (1 - e) \<le> d" and d_hi: "d \<le> q * (1 + e)"
    using dq by (simp_all add: abs_le_iff algebra_simps)
  have d0: "0 \<le> d"
  proof -
    have "0 \<le> q * (1 - e)" using q0 e by simp
    with d_lo show ?thesis by linarith
  qed
  have p0: "0 \<le> p" using d0 by (simp add: p_def)
  have "\<bar>m - p\<bar> \<le> \<bar>p\<bar> * e"
    using fround_accurate [OF acc, of p] by (simp add: m_def e_def)
  with p0 have mp: "\<bar>m - p\<bar> \<le> p * e" by simp
  have m_lo: "p * (1 - e) \<le> m" and m_hi: "m \<le> p * (1 + e)"
    using mp by (simp_all add: abs_le_iff algebra_simps)
  have m0: "0 \<le> m"
  proof -
    have "0 \<le> p * (1 - e)" using p0 e by simp
    with m_lo show ?thesis by linarith
  qed
  have "p \<le> real i * (q * (1 + e))"
    unfolding p_def using d_hi by (intro mult_left_mono) simp_all
  then have "p * (1 + e) \<le> real i * (q * (1 + e)) * (1 + e)"
    using e by (intro mult_right_mono) simp_all
  with m_hi have m1: "m \<le> real i * q * ((1 + e) * (1 + e))" by (simp add: algebra_simps)
  have sq: "(1 + e) * (1 + e) \<le> 1 + 3 * e"
  proof -
    have "e * e \<le> e * 1" using e by (intro mult_left_mono) simp_all
    then show ?thesis by (simp add: algebra_simps)
  qed
  have iq: "0 \<le> real i * q" using q0 by simp
  have "real i * q * ((1 + e) * (1 + e)) \<le> real i * q * (1 + 3 * e)"
    using sq iq by (intro mult_left_mono) simp_all
  with m1 have m2: "m \<le> real i * q * (1 + 3 * e)" by linarith
  have i1: "real i \<le> real n - 1" using i by linarith
  have "real i * q \<le> (real n - 1) * q"
    using i1 q0 by (rule mult_right_mono)
  moreover have "0 \<le> 1 + 3 * e" using e by simp
  ultimately have "real i * q * (1 + 3 * e) \<le> (real n - 1) * q * (1 + 3 * e)"
    by (rule mult_right_mono)
  with m2 have m3: "m \<le> (real n - 1) * q * (1 + 3 * e)" by linarith
  have ne: "real n * (3 * e) \<le> 3 / 4"
  proof -
    have "real n \<le> 2 ^ 51" using n by (metis of_nat_le_iff of_nat_numeral of_nat_power)
    then have "real n * (3 * e) \<le> 2 ^ 51 * (3 * e)"
      using e by (intro mult_right_mono) simp_all
    then show ?thesis by (simp add: e_def)
  qed
  have fac: "(real n - 1) * (1 + 3 * e) \<le> real n"
  proof -
    have "(real n - 1) * (1 + 3 * e) = real n - 1 + real n * (3 * e) - 3 * e"
      by (simp add: algebra_simps)
    with ne e show ?thesis by linarith
  qed
  have "(real n - 1) * q * (1 + 3 * e) = ((real n - 1) * (1 + 3 * e)) * q"
    by (simp add: algebra_simps)
  also have "\<dots> \<le> real n * q"
    using fac q0 by (intro mult_right_mono) simp_all
  also have "\<dots> = real_of_int l" using npos by (simp add: q_def)
  finally have "m \<le> real_of_int l" using m3 by linarith
  then have "m + 1 / 2 < real_of_int (l + 1)" by simp
  then have up: "\<lfloor>m + 1 / 2\<rfloor> < l + 1" by (simp only: floor_less_iff)
  have lo: "0 \<le> \<lfloor>m + 1 / 2\<rfloor>" using m0 by simp
  have unfold: "float_mul rnd (real i) (fround rnd (real_of_int l / real n)) = m"
    by (simp add: m_def p_def d_def q_def float_mul_def)
  show "0 \<le> py_round (float_mul rnd (real i) (fround rnd (real_of_int l / real n)))"
    and "py_round (float_mul rnd (real i) (fround rnd (real_of_int l / real n))) < l + 1"
    unfolding unfold using m0 lo up by (simp_all add: py_round_def)
qed

lemma subsample_loop_eq:
  "\<forall>i \<in> set idxs. 0 \<le> py_round (float_mul rnd (real i) d) \<and>
       py_round (float_mul rnd (real i) d) < int (length xs) \<Longrightarrow>
   subsample_loop rnd xs d idxs locs =
     Inr (locs @ map (\<lambda>i. xs ! nat (py_round (float_mul rnd (real i) d))) idxs)"
  by (induction idxs arbitrary: locs) (simp_all add: py_index_def)

lemma FixedLocator_locations_sampled:
  assumes k: "fix_nTicks self = Some (Some k)" "2 \<le> k"
    and len: "k < int (length (seq_items (fix_locations self)))"
    and d: "d = fround rnd (real_of_int (int (length (seq_items (fix_locations self))) - 1) /
                            real_of_int (k - 1))"
    and inrange: "\<forall>i < nat (k - 1). 0 \<le> py_round (float_mul rnd (real i) d) \<and>
        py_round (float_mul rnd (real i) d) < int (length (seq_items (fix_locations self)))"
  shows "FixedLocator_locations rnd self start end axisType =
     (Inr (SeqList (map (\<lambda>i. seq_items (fix_locations self) !
                              nat (py_round (float_mul rnd (real i) d)))
                      [0..<nat (k - 1)] @ [last (seq_items (fix_locations self))])), self)"
proof -
  let ?xs = "seq_items (fix_locations self)"
  have pos: "0 < length ?xs" using k len by linarith
  have bounds: "\<forall>i \<in> set [0..<nat (k - 1)].
      0 \<le> py_round (float_mul rnd (real i) d) \<and>
      py_round (float_mul rnd (real i) d) < int (length ?xs)"
    using inrange by simp
  have ne: "?xs \<noteq> []" using pos by simp
  have idx: "nat (int (length ?xs) - 1) = length ?xs - Suc 0" using pos by linarith
  have lastx: "py_index ?xs (- 1) = Inr (last ?xs)"
    using ne by (simp add: py_index_def last_conv_nth idx)
  have dv: "float_div rnd (real_of_int (int (length ?xs) - 1)) (real_of_int (k - 1)) = Inr d"
    using k d by (simp add: float_div_def)
  show ?thesis
    using k len lastx subsample_loop_eq [OF bounds, of "[]"] dv
    by (simp add: FixedLocator_locations_def Let_def)
qed

lemma FixedLocator_reachable_nTicks:
  "FixedLocator_reachable self \<Longrightarrow> fix_nTicks self = Some (Some k) \<Longrightarrow> 2 \<le> k"
proof (induction arbitrary: k rule: FixedLocator_reachable.induct)
  case (reach_init v nTicks)
  then show ?case
    by (cases v)
      (auto simp: FixedLocator_init_def FixedLocator_setNTicks_def FixedLocator_setLocations_def
        split: if_splits)
next
  case (reach_setLocations self v)
  then show ?case
    by (cases v) (auto simp: FixedLocator_setLocations_def)
next
  case (reach_setNTicks self v)
  then show ?case
    by (auto simp: FixedLocator_setNTicks_def split: if_splits)
next
  case (reach_setValues self kwargs)
  then show ?case
    by (cases "kwargs ''locations''"; cases "kwargs ''nTicks''";
        cases "the (kwargs ''locations'')")
      (auto simp: FixedLocator_setValues_def FixedLocator_setNTicks_def
        FixedLocator_setLocations_def Let_def split: if_splits)
next
  case (reach_locations self rnd start "end" axisType)
  then show ?case
    by (auto simp: FixedLocator_locations_def Let_def split: option.splits if_splits sum.splits)
qed

lemma FixedLocator_locations_keeps_self:
  assumes "\<And>k. fix_nTicks self = Some (Some k) \<Longrightarrow> 2 \<le> k"
  shows "snd (FixedLocator_locations rnd self start end axisType) = self"
  using assms
  by (auto simp: FixedLocator_locations_def Let_def split: option.splits sum.splits)

lemma FixedLocator_locations_all:
  "fix_nTicks self = Some None \<or>
   (\<exists>k. fix_nTicks self = Some (Some k) \<and> int (length (seq_items (fix_locations self))) \<le> k) \<Longrightarrow>
   FixedLocator_locations rnd self start end axisType = (Inr (fix_locations self), self)"
  by (auto simp: FixedLocator_locations_def)

lemma FixedLocator_locations_ignores_range:
  "FixedLocator_locations rnd self start end axisType =
   FixedLocator_locations rnd self start' end' axisType'"
  by (simp add: FixedLocator_locations_def)

text \<open>
  A constructor call whose \<^verbatim>\<open>nTicks\<close> is neither \<^verbatim>\<open>None\<close> nor an \<^verbatim>\<open>int\<close>
  (against its documentation) never assigns \<^verbatim>\<open>_nTicks\<close>; \<^verbatim>\<open>locations\<close> then
  raises \<^verbatim>\<open>AttributeError\<close>.
\<close>

lemma FixedLocator_locations_without_nTicks:
  "nTicks \<noteq> PNone \<Longrightarrow> \<not> isinstance_int nTicks \<Longrightarrow>
   fst (FixedLocator_locations rnd (FixedLocator_init v nTicks) start end axisType) =
     Inl AttributeError"
  by (cases v)
    (simp_all add: FixedLocator_locations_def FixedLocator_init_def FixedLocator_setNTicks_def
      FixedLocator_setLocations_def)

text \<open>
  C6, as the code has it. The result of \<^verbatim>\<open>FixedLocator.locations\<close> (and the locator
  after the call) does not depend on \<open>start\<close>, \<open>end\<close> or the axis type. With the tick
  limit \<^verbatim>\<open>None\<close>, or at least the number of configured positions, the configured
  sequence itself is returned. With a tick limit \<open>k \<ge> 2\<close> below the number of positions
  the call computes the float \<open>d\<close>, the rounded quotient \<open>(len - 1) / (k - 1)\<close>, and
  for \<open>i = 0, \<dots>, k - 2\<close> the index \<open>round(i * d)\<close> of the rounded product. The first
  index is 0. When the indices lie within the sequence, the result is the list of the
  positions at these indices, followed by the last position; duplicates are kept. They
  lie within the sequence for every rounding whose relative error is at most \<open>2^-53\<close>,
  as that of doubles is, and \<open>k \<le> 2^51\<close>. The positions 1 to 10 come back unchanged
  without a limit, and as \<open>[1, 6, 10]\<close> with the limit 3. (An object whose
  \<^verbatim>\<open>_nTicks\<close> was never assigned is left aside.)
\<close>

theorem FixedLocator_locations_subsample:
  "FixedLocator_locations rnd self start end axisType =
     FixedLocator_locations rnd self start' end' axisType' \<and>
   (fix_nTicks self = Some None \<longrightarrow>
      fst (FixedLocator_locations rnd self start end axisType) = Inr (fix_locations self)) \<and>
   (\<forall>k. fix_nTicks self = Some (Some k) \<and> int (length (seq_items (fix_locations self))) \<le> k \<longrightarrow>
      fst (FixedLocator_locations rnd self start end axisType) = Inr (fix_locations self)) \<and>
   (\<forall>k. fix_nTicks self = Some (Some k) \<and> 2 \<le> k \<and>
        k < int (length (seq_items (fix_locations self))) \<longrightarrow>
      (let xs = seq_items (fix_locations self);
           d = fround rnd (real_of_int (int (length xs) - 1) / real_of_int (k - 1));
           index = (\<lambda>i. py_round (float_mul rnd (real i) d))
       in index 0 = 0 \<and>
          ((\<forall>i < nat (k - 1). 0 \<le> index i \<and> index i < int (length xs)) \<longrightarrow>
             fst (FixedLocator_locations rnd self start end axisType) =
               Inr (SeqList (map (\<lambda>i. xs ! nat (index i)) [0..<nat (k - 1)] @ [last xs]))) \<and>
          ((\<forall>x. \<bar>rnd x - x\<bar> \<le> \<bar>x\<bar> / 2 ^ 53) \<and> k \<le> 2 ^ 51 \<longrightarrow>
             (\<forall>i < nat (k - 1). 0 \<le> index i \<and> index i < int (length xs))))) \<and>
   fst (FixedLocator_locations rnd
          (FixedLocator_init (PList (map PInt [1, 2, 3, 4, 5, 6, 7, 8, 9, 10])) PNone)
          start end axisType) =
     Inr (SeqList (map PInt [1, 2, 3, 4, 5, 6, 7, 8, 9, 10])) \<and>
   fst (FixedLocator_locations double_round
          (FixedLocator_init (PList (map PInt [1, 2, 3, 4, 5, 6, 7, 8, 9, 10])) (PInt 3))
          start end axisType) =
     Inr (SeqList [PInt 1, PInt 6, PInt 10])"
proof (intro conjI allI impI)
  show "FixedLocator_locations rnd self start end axisType =
     FixedLocator_locations rnd self start' end' axisType'"
    by (rule FixedLocator_locations_ignores_range)
  show "fst (FixedLocator_locations rnd self start end axisType) = Inr (fix_locations self)"
    if "fix_nTicks self = Some None"
    using that by (simp add: FixedLocator_locations_all)
  show "fst (FixedLocator_locations rnd self start end axisType) = Inr (fix_locations self)"
    if "fix_nTicks self = Some (Some k) \<and> int (length (seq_items (fix_locations self))) \<le> k"
    for k
    using that by (simp add: FixedLocator_locations_all)
  show "let xs = seq_items (fix_locations self);
           d = fround rnd (real_of_int (int (length xs) - 1) / real_of_int (k - 1));
           index = (\<lambda>i. py_round (float_mul rnd (real i) d))
       in index 0 = 0 \<and>
          ((\<forall>i < nat (k - 1). 0 \<le> index i \<and> index i < int (length xs)) \<longrightarrow>
             fst (FixedLocator_locations rnd self start end axisType) =
               Inr (SeqList (map (\<lambda>i. xs ! nat (index i)) [0..<nat (k - 1)] @ [last xs]))) \<and>
          ((\<forall>x. \<bar>rnd x - x\<bar> \<le> \<bar>x\<bar> / 2 ^ 53) \<and> k \<le> 2 ^ 51 \<longrightarrow>
             (\<forall>i < nat (k - 1). 0 \<le> index i \<and> index i < int (length xs)))"
    if h: "fix_nTicks self = Some (Some k) \<and> 2 \<le> k \<and>
        k < int (length (seq_items (fix_locations self)))"
    for k
  proof -
    let ?xs = "seq_items (fix_locations self)"
    let ?d = "fround rnd (real_of_int (int (length ?xs) - 1) / real_of_int (k - 1))"
    have l0: "0 \<le> int (length ?xs) - 1" using h by linarith
    have kn: "real_of_int (k - 1) = real (nat (k - 1))" using h by simp
    have first: "py_round (float_mul rnd (real 0) ?d) = 0"
      by (simp add: py_round_def float_mul_def fround_def)
    have sampled: "fst (FixedLocator_locations rnd self start end axisType) =
        Inr (SeqList (map (\<lambda>i. ?xs ! nat (py_round (float_mul rnd (real i) ?d)))
                        [0..<nat (k - 1)] @ [last ?xs]))"
      if "\<forall>i < nat (k - 1). 0 \<le> py_round (float_mul rnd (real i) ?d) \<and>
            py_round (float_mul rnd (real i) ?d) < int (length ?xs)"
      using h FixedLocator_locations_sampled [of self k ?d rnd start "end" axisType] that
      by simp
    have inrange: "\<forall>i < nat (k - 1). 0 \<le> py_round (float_mul rnd (real i) ?d) \<and>
            py_round (float_mul rnd (real i) ?d) < int (length ?xs)"
      if a: "(\<forall>x. \<bar>rnd x - x\<bar> \<le> \<bar>x\<bar> / 2 ^ 53) \<and> k \<le> 2 ^ 51"
    proof (intro allI impI)
      fix i assume i: "i < nat (k - 1)"
      from a have acc: "\<forall>x. \<bar>rnd x - x\<bar> \<le> \<bar>x\<bar> / 2 ^ 53" by simp
      have n: "nat (k - 1) \<le> 2 ^ 51"
      proof -
        have "k - 1 \<le> 2 ^ 51" using a by simp
        then have "nat (k - 1) \<le> nat (2 ^ 51)" by (rule nat_mono)
        then show ?thesis by simp
      qed
      from subsample_index_bounds [OF acc i n l0]
      show "0 \<le> py_round (float_mul rnd (real i) ?d) \<and>
            py_round (float_mul rnd (real i) ?d) < int (length ?xs)"
        unfolding kn by simp
    qed
    show ?thesis
      unfolding Let_def using first sampled inrange by blast
  qed
  show "fst (FixedLocator_locations rnd
          (FixedLocator_init (PList (map PInt [1, 2, 3, 4, 5, 6, 7, 8, 9, 10])) PNone)
          start end axisType) =
     Inr (SeqList (map PInt [1, 2, 3, 4, 5, 6, 7, 8, 9, 10]))"
    by (simp add: FixedLocator_locations_def FixedLocator_init_def FixedLocator_setNTicks_def
        FixedLocator_setLocations_def)
  have d: "fround double_round (9 / 2) = 9 / 2"
    using double_fround_near [of 4 "9 / 2" 2 5066549580791808]
    by (simp add: power_int_minus)
  have z: "fround double_round 0 = 0" by (simp add: fround_def)
  show "fst (FixedLocator_locations double_round
          (FixedLocator_init (PList (map PInt [1, 2, 3, 4, 5, 6, 7, 8, 9, 10])) (PInt 3))
          start end axisType) =
     Inr (SeqList [PInt 1, PInt 6, PInt 10])"
    by (simp add: FixedLocator_locations_def FixedLocator_init_def FixedLocator_setNTicks_def
        FixedLocator_setLocations_def Let_def py_index_def py_round_def upt_conv_Cons
        float_div_def float_mul_def d z)
qed

theorem FixedLocator_locations_subsample_witness:
  "fst (FixedLocator_locations double_round
     \<lparr>fix_locations = SeqTuple [PStr ''a'', PStr ''b'', PStr ''c'', PStr ''d'', PStr ''e''],
      fix_nTicks = Some (Some 3)\<rparr> 0 1 ''major'') =
     Inr (SeqList [PStr ''a'', PStr ''c'', PStr ''e'']) \<and>
   fst (FixedLocator_locations double_round
     \<lparr>fix_locations = SeqTuple [PStr ''a'', PStr ''b''], fix_nTicks = Some (Some 3)\<rparr> 0 1 ''major'') =
     Inr (SeqTuple [PStr ''a'', PStr ''b'']) \<and>
   fst (FixedLocator_locations double_round
     \<lparr>fix_locations = SeqList [PInt 4, PInt 2], fix_nTicks = Some None\<rparr> 0 1 ''major'') =
     Inr (SeqList [PInt 4, PInt 2])"
proof -
  have acc: "\<forall>x. \<bar>double_round x - x\<bar> \<le> \<bar>x\<bar> / 2 ^ 53"
    by (intro allI) (rule double_round_accurate)
  have d: "fround double_round 2 = 2" "fround double_round 0 = 0"
    by (simp_all add: fround_def)
  have a: "fst (FixedLocator_locations double_round
     \<lparr>fix_locations = SeqTuple [PStr ''a'', PStr ''b'', PStr ''c'', PStr ''d'', PStr ''e''],
      fix_nTicks = Some (Some 3)\<rparr> 0 1 ''major'') =
     Inr (SeqList [PStr ''a'', PStr ''c'', PStr ''e''])"
    using FixedLocator_locations_subsample [of double_round
        "\<lparr>fix_locations = SeqTuple [PStr ''a'', PStr ''b'', PStr ''c'', PStr ''d'', PStr ''e''],
          fix_nTicks = Some (Some 3)\<rparr>" 0 1 "''major''"] acc
    by (simp add: Let_def py_round_def upt_conv_Cons float_mul_def d)
  have b: "fst (FixedLocator_locations double_round
     \<lparr>fix_locations = SeqTuple [PStr ''a'', PStr ''b''], fix_nTicks = Some (Some 3)\<rparr> 0 1 ''major'') =
     Inr (SeqTuple [PStr ''a'', PStr ''b''])"
    using FixedLocator_locations_subsample [of double_round
        "\<lparr>fix_locations = SeqTuple [PStr ''a'', PStr ''b''], fix_nTicks = Some (Some 3)\<rparr>"
        0 1 "''major''"]
    by simp
  have c: "fst (FixedLocator_locations double_round
     \<lparr>fix_locations = SeqList [PInt 4, PInt 2], fix_nTicks = Some None\<rparr> 0 1 ''major'') =
     Inr (SeqList [PInt 4, PInt 2])"
    using FixedLocator_locations_subsample [of double_round
        "\<lparr>fix_locations = SeqList [PInt 4, PInt 2], fix_nTicks = Some None\<rparr>" 0 1 "''major''"]
    by simp
  from a b c show ?thesis by simp
qed

text \<open>
  C6 as it is stated fails. With 35 positions and a tick limit of 29 the float
  \<open>34.0 / 28.0\<close> is \<open>1.2142857142857142\<close> and its product with 21 the double
  \<open>25.499999999999996\<close>, which \<^verbatim>\<open>round\<close> takes to 25: the position at index 25 is
  returned where \<open>round(21 * 34 / 28) = round(25.5) = 26\<close>. And
  \<^verbatim>\<open>FixedLocator([1, 2, 3], 2.5)\<close>, whose tick limit was never assigned, returns no
  positions: \<^verbatim>\<open>locations\<close> raises \<^verbatim>\<open>AttributeError\<close>.
\<close>

theorem FixedLocator_locations_subsample_counterexample:
  "(\<exists>locs. fst (FixedLocator_locations double_round
                 (FixedLocator_init (PList (map PInt [0..34])) (PInt 29)) 0 1 ''major'') =
              Inr (SeqList locs) \<and>
            length locs = 29 \<and> locs ! 21 = PInt 25) \<and>
   py_round (21 * (35 - 1) / (29 - 1)) = 26 \<and>
   fst (FixedLocator_locations double_round
          (FixedLocator_init (PList [PInt 1, PInt 2, PInt 3]) (PFloat (5 / 2))) 0 1 ''major'') =
     Inl AttributeError"
proof (intro conjI)
  define xs where "xs = map PInt [0..34]"
  define self where "self = \<lparr>fix_locations = SeqList xs, fix_nTicks = Some (Some 29)\<rparr>"
  define d :: real where "d = 5468656690378459 / 2 ^ 52"
  have init: "FixedLocator_init (PList xs) (PInt 29) = self"
    by (simp add: FixedLocator_init_def FixedLocator_setNTicks_def FixedLocator_setLocations_def
        self_def)
  have len: "length xs = 35" by (simp add: xs_def)
  have acc: "\<forall>x. \<bar>double_round x - x\<bar> \<le> \<bar>x\<bar> / 2 ^ 53"
    by (intro allI) (rule double_round_accurate)
  have dv: "fround double_round (34 / 28) = d"
    unfolding d_def
    using double_fround_near [of 1 "34 / 28" 0 5468656690378459]
    by (simp add: power_int_minus)
  have p: "float_mul double_round 21 d = 7177611906121727 / 2 ^ 48"
    unfolding float_mul_def d_def
    using double_fround_near [of 25 "21 * (5468656690378459 / 2 ^ 52)" 4 7177611906121727]
    by (simp add: power_int_minus)
  have "\<lfloor>7177611906121727 / 2 ^ 48 + 1 / 2 :: real\<rfloor> = 25"
    by (rule floor_unique) simp_all
  then have idx: "py_round (float_mul double_round 21 d) = 25"
    by (simp add: p py_round_def)
  have inrange: "\<forall>i < nat (29 - 1). 0 \<le> py_round (float_mul double_round (real i) d) \<and>
      py_round (float_mul double_round (real i) d) < int (length (seq_items (fix_locations self)))"
  proof (intro allI impI)
    fix i :: nat assume "i < nat (29 - 1)"
    then have i: "i < 28" by simp
    have n: "(28::nat) \<le> 2 ^ 51" by simp
    from subsample_index_bounds [OF acc i n, of 34] dv
    show "0 \<le> py_round (float_mul double_round (real i) d) \<and>
      py_round (float_mul double_round (real i) d) < int (length (seq_items (fix_locations self)))"
      by (simp add: self_def len)
  qed
  have k: "fix_nTicks self = Some (Some 29)" "(2::int) \<le> 29"
    "29 < int (length (seq_items (fix_locations self)))"
    by (simp_all add: self_def len)
  have dd: "d = fround double_round
      (real_of_int (int (length (seq_items (fix_locations self))) - 1) / real_of_int (29 - 1))"
    using dv by (simp add: self_def len)
  from FixedLocator_locations_sampled [OF k dd inrange, of 0 1 "''major''"]
  have res: "fst (FixedLocator_locations double_round self 0 1 ''major'') =
      Inr (SeqList (map (\<lambda>i. xs ! nat (py_round (float_mul double_round (real i) d))) [0..<28] @
                    [last xs]))"
    by (simp add: self_def)
  let ?locs = "map (\<lambda>i. xs ! nat (py_round (float_mul double_round (real i) d))) [0..<28] @
                    [last xs]"
  have "?locs ! 21 = xs ! nat (py_round (float_mul double_round (real 21) d))"
    by (simp add: nth_append del: upt_Suc)
  also have "\<dots> = xs ! 25" by (simp add: idx)
  also have "\<dots> = PInt 25" by (simp add: xs_def)
  finally have at: "?locs ! 21 = PInt 25" .
  have "length ?locs = 29" by simp
  with res at show "\<exists>locs. fst (FixedLocator_locations double_round
                 (FixedLocator_init (PList (map PInt [0..34])) (PInt 29)) 0 1 ''major'') =
              Inr (SeqList locs) \<and>
            length locs = 29 \<and> locs ! 21 = PInt 25"
    unfolding init [unfolded xs_def] xs_def by blast
next
  have "\<lfloor>21 * (35 - 1) / (29 - 1) + 1 / 2 :: real\<rfloor> = 26"
    by (rule floor_unique) simp_all
  then show "py_round (21 * (35 - 1) / (29 - 1)) = 26"
    by (simp add: py_round_def)
next
  show "fst (FixedLocator_locations double_round
          (FixedLocator_init (PList [PInt 1, PInt 2, PInt 3]) (PFloat (5 / 2))) 0 1 ''major'') =
     Inl AttributeError"
    by (rule FixedLocator_locations_without_nTicks) simp_all
qed

lemma labeler_labels_keeps_self: "snd (labeler_labels render convert lb positions) = lb"
  by (cases lb) simp_all

lemma locator_locations_keeps_self:
  "locator_reachable l \<Longrightarrow> snd (locator_locations flog fpow rnd l start end axisType) = l"
proof (cases l)
  case (Fixed self)
  assume "locator_reachable l"
  with Fixed have "FixedLocator_reachable self" by simp
  then have "snd (FixedLocator_locations rnd self start end axisType) = self"
    by (intro FixedLocator_locations_keeps_self) (rule FixedLocator_reachable_nTicks)
  with Fixed show ?thesis by (simp add: split_beta)
qed simp_all

text \<open>
  C7. A call of \<^verbatim>\<open>locations\<close> leaves every locator as it was, for every object that
  the constructor, the setters and earlier calls of \<^verbatim>\<open>locations\<close> produce, so a
  second call with the same arguments has the same outcome (the same list, the same
  error, or no return); the same holds for \<^verbatim>\<open>labels\<close> on every labeler.
\<close>

theorem locations_labels_pure:
  "locator_reachable l \<Longrightarrow>
   snd (locator_locations flog fpow rnd l start end axisType) = l \<and>
   fst (locator_locations flog fpow rnd
          (snd (locator_locations flog fpow rnd l start end axisType)) start end axisType) =
     fst (locator_locations flog fpow rnd l start end axisType) \<and>
   snd (labeler_labels render convert lb positions) = lb \<and>
   fst (labeler_labels render convert (snd (labeler_labels render convert lb positions)) positions) =
     fst (labeler_labels render convert lb positions)"
  by (simp add: locator_locations_keeps_self labeler_labels_keeps_self)

theorem locations_labels_pure_witness:
  "\<forall>flog fpow rnd.
   locator_reachable (Fixed (FixedLocator_init (PList [PInt 1, PInt 2, PInt 3, PInt 4]) (PInt 1))) \<and>
   locator_locations flog fpow rnd
     (Fixed (FixedLocator_init (PList [PInt 1, PInt 2, PInt 3, PInt 4]) (PInt 1)))
     0 1 ''major'' =
     (Some (Inr (Sequence (SeqList [PInt 1, PInt 4]))),
      Fixed (FixedLocator_init (PList [PInt 1, PInt 2, PInt 3, PInt 4]) (PInt 1)))"
proof (intro allI)
  fix flog :: "real \<Rightarrow> real" and fpow :: "real \<Rightarrow> int \<Rightarrow> pyerr + real" and rnd :: "real \<Rightarrow> real"
  let ?l = "Fixed (FixedLocator_init (PList [PInt 1, PInt 2, PInt 3, PInt 4]) (PInt 1))"
  have r: "locator_reachable ?l" by (simp add: reach_init)
  have z: "fround rnd 0 = 0" "fround rnd 3 = 3" by (simp_all add: fround_def)
  have v: "fst (locator_locations flog fpow rnd ?l 0 1 ''major'') =
      Some (Inr (Sequence (SeqList [PInt 1, PInt 4])))"
    by (simp add: FixedLocator_locations_def FixedLocator_init_def FixedLocator_setNTicks_def
        FixedLocator_setLocations_def Let_def py_index_def py_round_def float_div_def
        float_mul_def z)
  from locations_labels_pure [OF r, of flog fpow rnd 0 1 "''major''"]
  have "snd (locator_locations flog fpow rnd ?l 0 1 ''major'') = ?l" by simp
  with r v show "locator_reachable ?l \<and> locator_locations flog fpow rnd ?l 0 1 ''major'' =
     (Some (Inr (Sequence (SeqList [PInt 1, PInt 4]))), ?l)"
    by (simp add: prod_eq_iff)
qed

text \<open>
  The assignment to \<^verbatim>\<open>_nTicks\<close> in \<^verbatim>\<open>FixedLocator.locations\<close> would change an
  object whose tick limit is below 2; no constructor or setter produces one.
\<close>

lemma FixedLocator_locations_assigns:
  "snd (FixedLocator_locations rnd
     \<lparr>fix_locations = SeqList [PInt 1, PInt 2, PInt 3], fix_nTicks = Some (Some 1)\<rparr> 0 1 ''major'') =
   \<lparr>fix_locations = SeqList [PInt 1, PInt 2, PInt 3], fix_nTicks = Some (Some 2)\<rparr>"
  by (simp add: FixedLocator_locations_def Let_def py_index_def py_round_def float_div_def
      float_mul_def fround_def)

section \<open>Properties of SpacedLocator\<close>



















text \<open>The constructor and the setters keep the base positive.\<close>

lemma SpacedLocator_base_positive:
  "0 < sp_base (SpacedLocator_init base anchor)"
  "0 < sp_base self \<Longrightarrow> 0 < sp_base (SpacedLocator_setBase v self)"
  "0 < sp_base self \<Longrightarrow> 0 < sp_base (SpacedLocator_setAnchor v self)"
  "0 < sp_base self \<Longrightarrow> 0 < sp_base (SpacedLocator_setValues kwargs self)"
  by (simp_all add: SpacedLocator_init_def SpacedLocator_setBase_def SpacedLocator_setAnchor_def
      SpacedLocator_setValues_def Let_def)









section \<open>Properties of LogLocator\<close>

lemma map_raise_all: "\<forall>x \<in> set xs. f x = Inr (g x) \<Longrightarrow> map_raise f xs = Inr (map g xs)"
  by (induction xs) simp_all

lemma log_loop_eq:
  "log_loop fpow rnd base subdivisions exponent lastExponent locs =
     (case map_raise (log_decade fpow rnd base subdivisions) [exponent..lastExponent] of
        Inl e \<Rightarrow> Inl e
      | Inr ds \<Rightarrow> Inr (locs @ concat ds))"
proof (induction fpow rnd base subdivisions exponent lastExponent locs rule: log_loop.induct)
  case (1 fpow rnd base subdivisions exponent lastExponent locs)
  show ?case
  proof (cases "exponent \<le> lastExponent")
    case False
    then show ?thesis by (subst log_loop.simps) simp
  next
    case True
    then have u: "[exponent..lastExponent] = exponent # [exponent + 1..lastExponent]"
      by (rule upto_rec1)
    show ?thesis
    proof (cases "log_decade fpow rnd base subdivisions exponent")
      case (Inl e)
      with True show ?thesis
        by (subst log_loop.simps) (simp add: u del: log_loop.simps)
    next
      case (Inr ys)
      from "1.IH" [OF True Inr] Inr True show ?thesis
        by (subst log_loop.simps) (simp add: u del: log_loop.simps split: sum.splits)
    qed
  qed
qed

lemma log_exponent_value:
  assumes "is_number base" and "0 < py_float rnd base" and "flog (py_float rnd base) \<noteq> 0"
  shows "log_exponent flog rnd rounding x base =
           Inr (if x \<le> 0 then 0 else rounding (fround rnd (flog x / flog (py_float rnd base))))"
  using assms by (simp add: log_exponent_def math_log_def float_div_def)

lemma log_decade_integral:
  assumes "is_integral base" and "0 \<le> exponent" and "\<forall>s \<in> set subdivisions. is_integral s"
  shows "log_decade fpow rnd base subdivisions exponent =
     Inr (map (\<lambda>s. PInt (int_value s * int_value base ^ nat exponent)) subdivisions)"
proof -
  have p: "py_pow fpow rnd base exponent = Inr (PInt (int_value base ^ nat exponent))"
    using assms(1,2) by (simp add: py_pow_def)
  have "\<forall>s \<in> set subdivisions.
      (case py_pow fpow rnd base exponent of Inl e \<Rightarrow> Inl e | Inr p \<Rightarrow> py_times rnd s p) =
      Inr (PInt (int_value s * int_value base ^ nat exponent))"
  proof
    fix s assume "s \<in> set subdivisions"
    with assms(3) have i: "is_integral s" by blast
    then have "is_number s" by (cases s) simp_all
    with i show "(case py_pow fpow rnd base exponent of Inl e \<Rightarrow> Inl e | Inr p \<Rightarrow> py_times rnd s p) =
      Inr (PInt (int_value s * int_value base ^ nat exponent))"
      by (simp add: p py_times_def)
  qed
  then show ?thesis
    unfolding log_decade_def by (rule map_raise_all)
qed

lemma LogLocator_locations_eq:
  assumes "is_number (log_base self)" and "0 < py_float rnd (log_base self)"
    and "flog (py_float rnd (log_base self)) \<noteq> 0"
  shows "LogLocator_locations flog fpow rnd self start end axisType =
     map_sum id concat
       (map_raise (log_decade fpow rnd (log_base self) (log_subdivisions self))
          [(if start \<le> 0 then 0
            else \<lfloor>fround rnd (flog start / flog (py_float rnd (log_base self)))\<rfloor>)..
           (if end \<le> 0 then 0
            else \<lceil>fround rnd (flog end / flog (py_float rnd (log_base self)))\<rceil>)])"
  by (simp add: LogLocator_locations_def log_loop_eq
      log_exponent_value [where flog = flog and rnd = rnd and base = "log_base self", OF assms]
      del: log_loop.simps split: sum.splits)

lemma LogLocator_locations_integral:
  assumes "is_number (log_base self)" and "0 < py_float rnd (log_base self)"
    and "flog (py_float rnd (log_base self)) \<noteq> 0"
    and "is_integral (log_base self)" and "\<forall>s \<in> set (log_subdivisions self). is_integral s"
    and "0 \<le> (if start \<le> 0 then 0
              else \<lfloor>fround rnd (flog start / flog (py_float rnd (log_base self)))\<rfloor>)"
  shows "LogLocator_locations flog fpow rnd self start end axisType =
     Inr (concat (map (\<lambda>exponent.
                         map (\<lambda>s. PInt (int_value s * int_value (log_base self) ^ nat exponent))
                           (log_subdivisions self))
          [(if start \<le> 0 then 0
            else \<lfloor>fround rnd (flog start / flog (py_float rnd (log_base self)))\<rfloor>)..
           (if end \<le> 0 then 0
            else \<lceil>fround rnd (flog end / flog (py_float rnd (log_base self)))\<rceil>)]))"
proof -
  let ?first = "if start \<le> 0 then 0
            else \<lfloor>fround rnd (flog start / flog (py_float rnd (log_base self)))\<rfloor>"
  let ?last = "if end \<le> 0 then 0
            else \<lceil>fround rnd (flog end / flog (py_float rnd (log_base self)))\<rceil>"
  have "\<forall>e \<in> set [?first..?last].
      log_decade fpow rnd (log_base self) (log_subdivisions self) e =
      Inr (map (\<lambda>s. PInt (int_value s * int_value (log_base self) ^ nat e)) (log_subdivisions self))"
  proof
    fix e assume "e \<in> set [?first..?last]"
    then have "?first \<le> e" by simp
    with assms(6) have "0 \<le> e" by linarith
    with assms(4,5) show "log_decade fpow rnd (log_base self) (log_subdivisions self) e =
      Inr (map (\<lambda>s. PInt (int_value s * int_value (log_base self) ^ nat e)) (log_subdivisions self))"
      by (intro log_decade_integral)
  qed
  then have "map_raise (log_decade fpow rnd (log_base self) (log_subdivisions self)) [?first..?last] =
      Inr (map (\<lambda>e. map (\<lambda>s. PInt (int_value s * int_value (log_base self) ^ nat e))
                        (log_subdivisions self)) [?first..?last])"
    by (rule map_raise_all)
  then show ?thesis
    unfolding LogLocator_locations_eq
      [where flog = flog and rnd = rnd and self = self, OF assms(1,2,3)]
    by simp
qed

lemma LogLocator_locations_example:
  assumes "flog 1 = 0" and "flog 100 = 2 * flog 10" and "flog 10 \<noteq> 0"
  shows "LogLocator_locations flog fpow rnd (LogLocator_init (PInt 10) (PList [PInt 1, PInt 5]))
       1 100 axisType =
     Inr [PInt 1, PInt 5, PInt 10, PInt 50, PInt 100, PInt 500]"
proof -
  let ?self = "\<lparr>log_base = PInt 10, log_subdivisions = [PInt 1, PInt 5]\<rparr>"
  have init: "LogLocator_init (PInt 10) (PList [PInt 1, PInt 5]) = ?self"
    by (simp add: LogLocator_init_def LogLocator_setBase_def LogLocator_setSubdivisions_def)
  have b: "py_float rnd (PInt 10) = 10" by (simp add: py_float_def fround_def)
  have q1: "fround rnd (flog 1 / flog 10) = 0" using assms by (simp add: fround_def)
  have q2: "fround rnd (flog 100 / flog 10) = 2" using assms by (simp add: fround_def)
  have first: "log_exponent flog rnd floor 1 (PInt 10) = Inr 0"
    using assms(3) by (simp add: log_exponent_def math_log_def float_div_def b q1)
  have last: "log_exponent flog rnd ceiling 100 (PInt 10) = Inr 2"
    using assms(3) by (simp add: log_exponent_def math_log_def float_div_def b q2)
  have d0: "log_decade fpow rnd (PInt 10) [PInt 1, PInt 5] 0 = Inr [PInt 1, PInt 5]"
    by (simp add: log_decade_def py_pow_def py_times_def)
  have d1: "log_decade fpow rnd (PInt 10) [PInt 1, PInt 5] 1 = Inr [PInt 10, PInt 50]"
    by (simp add: log_decade_def py_pow_def py_times_def)
  have d2: "log_decade fpow rnd (PInt 10) [PInt 1, PInt 5] 2 = Inr [PInt 100, PInt 500]"
    by (simp add: log_decade_def py_pow_def py_times_def)
  have "log_loop fpow rnd (PInt 10) [PInt 1, PInt 5] 0 2 [] =
      Inr [PInt 1, PInt 5, PInt 10, PInt 50, PInt 100, PInt 500]"
    by (simp add: d0 d1 d2)
  then show ?thesis
    by (simp add: LogLocator_locations_def init first last del: log_loop.simps)
qed

text \<open>
  C5, as the code has it. For a base \<open>b\<close> that is a positive number with a non-zero
  logarithm, the first exponent is the floor of the float \<^verbatim>\<open>math.log(start, b)\<close>,
  which is the rounded quotient of the two logarithms that the C library returns for
  \<open>start\<close> and \<open>b\<close>, or 0 when \<open>start \<le> 0\<close>; the last exponent is the ceiling of
  \<^verbatim>\<open>math.log(end, b)\<close>, or 0 when \<open>end \<le> 0\<close>. The result is made of one list for
  each exponent from the first to the last, in order: the products
  \<^verbatim>\<open>s * pow(b, exponent)\<close> for the subdivisions \<open>s\<close> in order; an error of a power or a
  product is the outcome of the call. For an integral base, integral subdivisions and a
  first exponent that is not negative these products are the exact integers
  \<open>s * b ^ exponent\<close>. When the library's logarithm of 1 is 0 and that of 100 twice
  that of 10 (as they are), base 10 with the subdivisions \<open>[1, 5]\<close> gives
  \<open>[1, 5, 10, 50, 100, 500]\<close> on \<open>(1, 100)\<close>.
\<close>

theorem LogLocator_locations_decades:
  "is_number (log_base self) \<Longrightarrow> 0 < py_float rnd (log_base self) \<Longrightarrow>
   flog (py_float rnd (log_base self)) \<noteq> 0 \<Longrightarrow>
   (let b = py_float rnd (log_base self);
        firstExponent = (if start \<le> 0 then 0 else \<lfloor>fround rnd (flog start / flog b)\<rfloor>);
        lastExponent = (if end \<le> 0 then 0 else \<lceil>fround rnd (flog end / flog b)\<rceil>)
    in LogLocator_locations flog fpow rnd self start end axisType =
         map_sum id concat
           (map_raise
              (\<lambda>exponent.
                 map_raise (\<lambda>s. case py_pow fpow rnd (log_base self) exponent of
                                   Inl e \<Rightarrow> Inl e
                                 | Inr p \<Rightarrow> py_times rnd s p)
                   (log_subdivisions self))
              [firstExponent..lastExponent]) \<and>
       (is_integral (log_base self) \<and> (\<forall>s \<in> set (log_subdivisions self). is_integral s) \<and>
        0 \<le> firstExponent \<longrightarrow>
          LogLocator_locations flog fpow rnd self start end axisType =
            Inr (concat (map (\<lambda>exponent.
                                map (\<lambda>s. PInt (int_value s * int_value (log_base self) ^ nat exponent))
                                  (log_subdivisions self))
                           [firstExponent..lastExponent])))) \<and>
   (flog 1 = 0 \<and> flog 100 = 2 * flog 10 \<and> flog 10 \<noteq> 0 \<longrightarrow>
      LogLocator_locations flog fpow rnd (LogLocator_init (PInt 10) (PList [PInt 1, PInt 5]))
          1 100 axisType =
        Inr [PInt 1, PInt 5, PInt 10, PInt 50, PInt 100, PInt 500])"
proof (intro conjI impI)
  assume a: "is_number (log_base self)" "0 < py_float rnd (log_base self)"
    "flog (py_float rnd (log_base self)) \<noteq> 0"
  have d: "log_decade fpow rnd (log_base self) (log_subdivisions self) =
      (\<lambda>exponent.
         map_raise (\<lambda>s. case py_pow fpow rnd (log_base self) exponent of
                           Inl e \<Rightarrow> Inl e
                         | Inr p \<Rightarrow> py_times rnd s p)
           (log_subdivisions self))"
    by (rule ext) (simp add: log_decade_def)
  show "let b = py_float rnd (log_base self);
        firstExponent = (if start \<le> 0 then 0 else \<lfloor>fround rnd (flog start / flog b)\<rfloor>);
        lastExponent = (if end \<le> 0 then 0 else \<lceil>fround rnd (flog end / flog b)\<rceil>)
    in LogLocator_locations flog fpow rnd self start end axisType =
         map_sum id concat
           (map_raise
              (\<lambda>exponent.
                 map_raise (\<lambda>s. case py_pow fpow rnd (log_base self) exponent of
                                   Inl e \<Rightarrow> Inl e
                                 | Inr p \<Rightarrow> py_times rnd s p)
                   (log_subdivisions self))
              [firstExponent..lastExponent]) \<and>
       (is_integral (log_base self) \<and> (\<forall>s \<in> set (log_subdivisions self). is_integral s) \<and>
        0 \<le> firstExponent \<longrightarrow>
          LogLocator_locations flog fpow rnd self start end axisType =
            Inr (concat (map (\<lambda>exponent.
                                map (\<lambda>s. PInt (int_value s * int_value (log_base self) ^ nat exponent))
                                  (log_subdivisions self))
                           [firstExponent..lastExponent])))"
    unfolding Let_def
    using LogLocator_locations_eq
        [where flog = flog and rnd = rnd and self = self, OF a, of fpow start "end" axisType]
      LogLocator_locations_integral
        [where flog = flog and rnd = rnd and self = self, OF a, of start fpow "end" axisType]
    unfolding d by blast
next
  show "LogLocator_locations flog fpow rnd (LogLocator_init (PInt 10) (PList [PInt 1, PInt 5]))
          1 100 axisType =
        Inr [PInt 1, PInt 5, PInt 10, PInt 50, PInt 100, PInt 500]"
    if "flog 1 = 0 \<and> flog 100 = 2 * flog 10 \<and> flog 10 \<noteq> 0"
    using that by (intro LogLocator_locations_example) simp_all
qed

theorem LogLocator_locations_decades_witness:
  "\<forall>fpow.
     LogLocator_locations libm_log fpow double_round
         (LogLocator_init (PInt 10) (PList [PInt 1, PInt 5])) 1 100 ''major'' =
       Inr [PInt 1, PInt 5, PInt 10, PInt 50, PInt 100, PInt 500] \<and>
     LogLocator_locations libm_log fpow double_round
         \<lparr>log_base = PInt 10, log_subdivisions = [PInt 2]\<rparr> 10 10000 ''minor'' =
       Inr [PInt 20, PInt 200, PInt 2000, PInt 20000]"
proof (intro allI)
  fix fpow :: "real \<Rightarrow> int \<Rightarrow> pyerr + real"
  let ?self = "\<lparr>log_base = PInt 10, log_subdivisions = [PInt 2]\<rparr>"
  have b: "py_float double_round (PInt 10) = 10" by (simp add: py_float_def fround_def)
  have l10: "libm_log 10 \<noteq> 0" by (simp add: libm_log_def)
  have l1: "libm_log 1 = 0" by (simp add: libm_log_def)
  have l100: "libm_log 100 = 2 * libm_log 10" by (simp add: libm_log_def)
  have q1: "fround double_round 1 = 1" by (simp add: fround_def)
  have "libm_log 10000 / libm_log 10 = 4" by (simp add: libm_log_def)
  then have q4: "fround double_round (libm_log 10000 / libm_log 10) = 4"
    by (simp add: fround_def)
  have u: "[1..4::int] = [1, 2, 3, 4]" by (simp add: upto.simps)
  have prem: "is_number (log_base ?self)" "0 < py_float double_round (log_base ?self)"
    "libm_log (py_float double_round (log_base ?self)) \<noteq> 0"
    by (simp_all add: b l10)
  note t = LogLocator_locations_decades
    [where self = ?self and rnd = double_round and flog = libm_log and fpow = fpow, OF prem]
  from t [of 10 10000 "''minor''", unfolded Let_def, THEN conjunct1, THEN conjunct2, rule_format]
  have second: "LogLocator_locations libm_log fpow double_round ?self 10 10000 ''minor'' =
      Inr [PInt 20, PInt 200, PInt 2000, PInt 20000]"
    by (simp add: b q1 q4 u l10)
  from t [of 10 10000 "''major''", THEN conjunct2, rule_format]
  have first: "LogLocator_locations libm_log fpow double_round
         (LogLocator_init (PInt 10) (PList [PInt 1, PInt 5])) 1 100 ''major'' =
       Inr [PInt 1, PInt 5, PInt 10, PInt 50, PInt 100, PInt 500]"
    by (simp add: l1 l100 l10)
  from first second
  show "LogLocator_locations libm_log fpow double_round
         (LogLocator_init (PInt 10) (PList [PInt 1, PInt 5])) 1 100 ''major'' =
       Inr [PInt 1, PInt 5, PInt 10, PInt 50, PInt 100, PInt 500] \<and>
     LogLocator_locations libm_log fpow double_round ?self 10 10000 ''minor'' =
       Inr [PInt 20, PInt 200, PInt 2000, PInt 20000]"
    by (simp only: simp_thms)
qed

text \<open>
  C5 as it is stated fails. The logarithm of 1000 to the base 10 is 3, but
  \<^verbatim>\<open>math.log(1000, 10)\<close> divides the double \<open>6.907755278982137\<close> by the double
  \<open>2.302585092994046\<close> and gets \<open>2.9999999999999996\<close>: the first exponent is 2, and
  \<^verbatim>\<open>LogLocator(10).locations(1000, 10000)\<close> starts at 100, a decade below
  \<open>10 ^ floor(log_10(1000))\<close>.
\<close>

theorem LogLocator_locations_decades_counterexample:
  "(\<forall>fpow. LogLocator_locations libm_log fpow double_round
              (LogLocator_init (PInt 10) (PList [PInt 1])) 1000 10000 ''major'' =
            Inr [PInt 100, PInt 1000, PInt 10000]) \<and>
   \<lfloor>log 10 1000\<rfloor> = 3 \<and> \<lceil>log 10 10000\<rceil> = 4"
proof (intro conjI allI)
  fix fpow :: "real \<Rightarrow> int \<Rightarrow> pyerr + real"
  let ?self = "\<lparr>log_base = PInt 10, log_subdivisions = [PInt 1]\<rparr>"
  have init: "LogLocator_init (PInt 10) (PList [PInt 1]) = ?self"
    by (simp add: LogLocator_init_def LogLocator_setBase_def LogLocator_setSubdivisions_def)
  have b: "py_float double_round (PInt 10) = 10" by (simp add: py_float_def fround_def)
  have l10: "libm_log 10 \<noteq> 0" by (simp add: libm_log_def)
  have q: "fround double_round (libm_log 1000 / libm_log 10) = 6755399441055743 / 2 ^ 51"
    using double_fround_near [of 2 "libm_log 1000 / libm_log 10" 1 6755399441055743]
    by (simp add: libm_log_def power_int_minus)
  have f: "\<lfloor>6755399441055743 / 2 ^ 51 :: real\<rfloor> = 2"
    by (rule floor_unique) simp_all
  have "libm_log 10000 / libm_log 10 = 4" by (simp add: libm_log_def)
  then have q4: "fround double_round (libm_log 10000 / libm_log 10) = 4"
    by (simp add: fround_def)
  have first: "log_exponent libm_log double_round floor 1000 (PInt 10) = Inr 2"
    using l10 by (simp add: log_exponent_def math_log_def float_div_def b q f)
  have last: "log_exponent libm_log double_round ceiling 10000 (PInt 10) = Inr 4"
    using l10 by (simp add: log_exponent_def math_log_def float_div_def b q4)
  have d2: "log_decade fpow double_round (PInt 10) [PInt 1] 2 = Inr [PInt 100]"
    by (simp add: log_decade_def py_pow_def py_times_def)
  have d3: "log_decade fpow double_round (PInt 10) [PInt 1] 3 = Inr [PInt 1000]"
    by (simp add: log_decade_def py_pow_def py_times_def)
  have d4: "log_decade fpow double_round (PInt 10) [PInt 1] 4 = Inr [PInt 10000]"
    by (simp add: log_decade_def py_pow_def py_times_def)
  have "log_loop fpow double_round (PInt 10) [PInt 1] 2 4 [] =
      Inr [PInt 100, PInt 1000, PInt 10000]"
    by (simp add: d2 d3 d4)
  then show "LogLocator_locations libm_log fpow double_round
              (LogLocator_init (PInt 10) (PList [PInt 1])) 1000 10000 ''major'' =
            Inr [PInt 100, PInt 1000, PInt 10000]"
    by (simp add: LogLocator_locations_def init first last del: log_loop.simps)
next
  have "log 10 (10 ^ 3) = real 3" by (rule log_pow_cancel) simp_all
  then have "log 10 1000 = real_of_int 3" by simp
  then show "\<lfloor>log 10 1000\<rfloor> = 3" by (simp only: floor_of_int)
next
  have "log 10 (10 ^ 4) = real 4" by (rule log_pow_cancel) simp_all
  then have "log 10 10000 = real_of_int 4" by simp
  then show "\<lceil>log 10 10000\<rceil> = 4" by (simp only: ceiling_of_int)
qed

end
